theory Spec2Isabelle
  imports Main "HOL-Library.Word"
begin

unbundle bit_operations_syntax

section \<open>Identifiers, status codes and parameters\<close>

text \<open>
  A \<open>NodeId\<close> is a 512-bit value; \<open>IsZero\<close> holds of the all-zero id.
  Durations and the clock are counted in milliseconds.
\<close>

type_synonym NodeId = "512 word"

definition IsZero :: "NodeId \<Rightarrow> bool" where
  "IsZero n = (n = 0)"

type_synonym Endpoint = nat

type_synonym ResponseFunctor = nat

text \<open>
  The return codes of \<open>return_codes.h\<close> (not part of the sources at hand) are kept
  symbolic; \<open>kRudpError\<close> stands for any other code the transport reports.
  The network-status functor receives either a return code or the routing table size.
\<close>

datatype return_code =
    kSuccess
  | kNetworkShuttingDown
  | kNotJoined
  | kAnonymousSessionEnded
  | kPartialJoinSessionEnded
  | kRudpError int

datatype net_status = ReturnCode return_code | TableSize nat

datatype error_code = no_error | operation_aborted | other_error nat

text \<open>
  \<open>Parameters\<close> (\<open>parameters.h\<close>) is not among the sources, so the constants are a
  parameter of every operation that reads them.
\<close>

record Parameters =
  max_data_size :: nat
  hops_to_live :: nat
  node_group_size :: nat
  closest_nodes_size :: nat
  max_routing_table_size :: nat
  routing_table_size_threshold :: nat
  find_node_interval :: int
  find_close_node_interval :: int
  recovery_time_lag :: int
  re_bootstrap_time_lag :: int
  maximum_find_close_node_failures :: int

text \<open>
  Modelled from the spec: the default values of the tunable parameters
  (\<open>MaxRTSize = 64\<close>, \<open>CloseGroupSize = 8\<close>, threshold \<open>= MaxRTSize * 3/4\<close>,
  \<open>FindCloseNodeInterval = 5 s\<close>, \<open>FindNodeInterval = 60 s\<close>, \<open>RecoveryTimeLag = 1 s\<close>,
  \<open>ReBootstrapTimeLag = 10 s\<close>, \<open>MaxFindCloseNodeFailures = 3\<close>, \<open>HopsToLive = 50\<close>,
  \<open>MaxDataSize = 1 MiB\<close>). The spec has one name, \<open>CloseGroupSize\<close>, for the two
  constants \<open>node_group_size\<close> and \<open>closest_nodes_size\<close> of the code.
\<close>

definition default_parameters :: Parameters where
  "default_parameters =
     \<lparr> max_data_size = 1048576, hops_to_live = 50, node_group_size = 8,
       closest_nodes_size = 8, max_routing_table_size = 64,
       routing_table_size_threshold = 48, find_node_interval = 60000,
       find_close_node_interval = 5000, recovery_time_lag = 1000,
       re_bootstrap_time_lag = 10000, maximum_find_close_node_failures = 3 \<rparr>"

section \<open>Routing table\<close>

record NodeInfo =
  node_id :: NodeId
  connection_id :: NodeId
  public_key :: string
  rank :: int

definition NodeInfo_default :: NodeInfo where
  "NodeInfo_default = \<lparr> node_id = 0, connection_id = 0, public_key = [], rank = 0 \<rparr>"

record RoutingTable =
  client_mode :: bool
  nodes :: "NodeInfo list"

definition Size :: "RoutingTable \<Rightarrow> nat" where
  "Size rt = length (nodes rt)"

text \<open>
  Modelled from the spec: \<open>routing_table.cc\<close> is missing. \<open>closest_node(target)\<close> is the
  entry minimising the XOR distance to the target; the code's \<open>GetClosestNode\<close> returns
  a \<open>NodeInfo\<close>, here the default (zero) one when the table is empty.
\<close>

fun closest_of :: "NodeId \<Rightarrow> NodeInfo list \<Rightarrow> NodeInfo option" where
  "closest_of t [] = None"
| "closest_of t (x # xs) =
     (case closest_of t xs of
        None \<Rightarrow> Some x
      | Some y \<Rightarrow> if (node_id y XOR t) < (node_id x XOR t) then Some y else Some x)"

definition GetClosestNode :: "RoutingTable \<Rightarrow> NodeId \<Rightarrow> NodeInfo" where
  "GetClosestNode rt t =
     (case closest_of t (nodes rt) of None \<Rightarrow> NodeInfo_default | Some n \<Rightarrow> n)"

text \<open>
  Modelled from the spec: \<open>drop(address_or_connection_id)\<close> removes by either key and
  returns the dropped entry or none (a \<open>NodeInfo\<close> with zero id in the code). The callers
  modelled here pass \<open>routing_only = true\<close>; the table's own notifications are outside
  this model.
\<close>

definition has_key :: "NodeId \<Rightarrow> NodeInfo \<Rightarrow> bool" where
  "has_key x n = (node_id n = x \<or> connection_id n = x)"

text \<open>
  Neither the sources nor the spec say how \<open>GetNodeInfo\<close> looks an entry up, so the lookup
  is a parameter of the operations that call it: given the table and an id it answers
  with the entry it finds, if any.
\<close>

type_synonym node_info_lookup = "RoutingTable \<Rightarrow> NodeId \<Rightarrow> NodeInfo option"

definition DropNode :: "RoutingTable \<Rightarrow> NodeId \<Rightarrow> NodeInfo \<times> RoutingTable" where
  "DropNode rt x =
     (case find (has_key x) (nodes rt) of
        None \<Rightarrow> (NodeInfo_default, rt)
      | Some n \<Rightarrow> (n, rt\<lparr>nodes := remove1 n (nodes rt)\<rparr>))"

text \<open>
  Modelled from the spec: \<open>is_in_range(target, n)\<close> is true iff fewer than \<open>n\<close> entries lie
  strictly closer to \<open>target\<close> than this node does.
\<close>

definition IsThisNodeInRange :: "NodeId \<Rightarrow> RoutingTable \<Rightarrow> NodeId \<Rightarrow> nat \<Rightarrow> bool" where
  "IsThisNodeInRange self rt target n =
     (length (filter (\<lambda>p. (node_id p XOR target) < (self XOR target)) (nodes rt)) < n)"

text \<open>The non-routing table: only \<open>DropConnection\<close> is used, removal by connection id.\<close>

definition DropConnection :: "NodeInfo list \<Rightarrow> NodeId \<Rightarrow> NodeInfo \<times> NodeInfo list" where
  "DropConnection nrt x =
     (case find (\<lambda>n. connection_id n = x) nrt of
        None \<Rightarrow> (NodeInfo_default, nrt)
      | Some n \<Rightarrow> (n, remove1 n nrt))"

section \<open>Messages\<close>

datatype MessageType = kNodeLevel | kFindNodes

text \<open>
  The envelope \<open>protobuf::Message\<close>: every field is optional, \<open>None\<close> is "not set".
  Reading the unset \<open>id\<close> gives the protobuf default 0.
\<close>

record Message =
  destination_id :: "NodeId option"
  source_id :: "NodeId option"
  routing_message :: "bool option"
  data :: "string list"
  msg_type :: "MessageType option"
  cacheable :: "bool option"
  direct :: "bool option"
  client_node :: "bool option"
  request :: "bool option"
  msg_hops_to_live :: "nat option"
  group_claim :: "NodeId option"
  msg_id :: "32 word option"
  replication :: "nat option"
  relay_id :: "NodeId option"
  relay_connection_id :: "NodeId option"

definition Message_empty :: Message where
  "Message_empty =
     \<lparr> destination_id = None, source_id = None, routing_message = None, data = [],
       msg_type = None, cacheable = None, direct = None, client_node = None,
       request = None, msg_hops_to_live = None, group_claim = None, msg_id = None,
       replication = None, relay_id = None, relay_connection_id = None \<rparr>"

definition id_of :: "Message \<Rightarrow> 32 word" where
  "id_of m = (case msg_id m of None \<Rightarrow> 0 | Some i \<Rightarrow> i)"

text \<open>
  Modelled from the spec: \<open>rpcs::FindNodes\<close> is missing. A FindNodes request is
  \<open>(source = self, target, num_nodes_requested, relay_id?, relay_connection_id?)\<close>; the
  relay fields are filled when the request is a relay message.
\<close>

record FindNodesRequest =
  fn_source :: NodeId
  fn_target :: NodeId
  num_nodes_requested :: int
  fn_relay_id :: "NodeId option"
  fn_relay_connection_id :: "NodeId option"

definition FindNodes :: "NodeId \<Rightarrow> NodeId \<Rightarrow> int \<Rightarrow> bool \<Rightarrow> NodeId \<Rightarrow> FindNodesRequest" where
  "FindNodes target my_node_id num relay_message relay_conn =
     \<lparr> fn_source = my_node_id, fn_target = target, num_nodes_requested = num,
       fn_relay_id = (if relay_message then Some my_node_id else None),
       fn_relay_connection_id = (if relay_message then Some relay_conn else None) \<rparr>"

datatype packet = AppMessage Message | FindNodesMessage FindNodesRequest

datatype wire = Serialised Message | Garbage string

definition SerializeAsString :: "Message \<Rightarrow> wire" where
  "SerializeAsString m = Serialised m"

fun ParseFromString :: "wire \<Rightarrow> Message option" where
  "ParseFromString (Serialised m) = Some m"
| "ParseFromString (Garbage s) = None"

section \<open>Pending-response timer\<close>

text \<open>
  Modelled from the spec: \<open>timer.cc\<close> is missing. The pending table maps a message id to
  \<open>{callback, remaining_responses, deadline}\<close>; \<open>add_task(timeout, callback,
  expected_responses)\<close> returns the fresh id (a 32-bit counter) and sets the deadline to
  now + timeout; \<open>cancel_task\<close> removes the entry.
\<close>

record task =
  callback :: ResponseFunctor
  remaining_responses :: nat
  deadline :: int

record Timer =
  tasks :: "(32 word \<times> task) list"
  next_id :: "32 word"

definition AddTask :: "int \<Rightarrow> ResponseFunctor \<Rightarrow> nat \<Rightarrow> int \<Rightarrow> Timer \<Rightarrow> 32 word \<times> Timer" where
  "AddTask timeout f expected now t =
     (next_id t,
      t\<lparr> tasks := tasks t @
             [(next_id t, \<lparr> callback = f, remaining_responses = expected,
                            deadline = now + timeout \<rparr>)],
         next_id := next_id t + 1 \<rparr>)"

definition CancelTask :: "32 word \<Rightarrow> Timer \<Rightarrow> Timer" where
  "CancelTask i t = t\<lparr> tasks := filter (\<lambda>e. fst e \<noteq> i) (tasks t) \<rparr>"

section \<open>Timers, posted tasks and observable effects\<close>

text \<open>
  The handlers given to \<open>async_wait\<close>, one constructor per lambda of the source:
  \<open>RecoveryStart\<close> (armed by \<open>FindClosestNode\<close> and \<open>ZeroStateJoin\<close>),
  \<open>RecoveryAfterLoss\<close> (armed by \<open>DoOnConnectionLost\<close> and \<open>RemoveNode\<close>),
  \<open>RecoveryRearm\<close> (armed by \<open>ReSendFindNodeRequest\<close>; it captures the status its
  arming call was entered with), \<open>SetupRetry\<close> (captures the attempt count) and
  \<open>ReBootstrapWake\<close>. The attempt count is a C++ \<open>int\<close>, here a 32-bit word read as
  signed (\<open>sint\<close>): \<open>++attempts\<close> wraps from the largest value to the smallest, as it does on the
  two's-complement machines the code runs on.
\<close>

datatype wait_handler =
    RecoveryStart
  | RecoveryAfterLoss
  | RecoveryRearm error_code
  | SetupRetry "32 word"
  | ReBootstrapWake

datatype sent_functor = FindNodesSent | RelayMessageSent Message

datatype posted_task =
    DoOnMessageReceivedTask wire
  | DoOnConnectionLostTask NodeId
  | RelaySendResultTask Message return_code
  | TimerWake wait_handler error_code

datatype event =
    ResponseFunctorCall ResponseFunctor "string list"
  | NetworkStatusCall net_status
  | SendToDirect packet NodeId sent_functor
  | SendToClosestNode packet
  | NetRemove NodeId
  | NetBootstrap "Endpoint list"
  | HandleMessage Message
  | AssertFailed string

text \<open>
  A \<open>boost::asio::deadline_timer\<close>: setting a new expiry or cancelling completes every
  pending wait with \<open>operation_aborted\<close>; expiry completes them with success. The
  operations on the timers of the node, further down, post these completions as tasks.
\<close>

record deadline_timer =
  expires_at :: "int option"
  waiting :: "wait_handler list"

definition timer_idle :: deadline_timer where
  "timer_idle = \<lparr> expires_at = None, waiting = [] \<rparr>"

definition aborted_waits :: "deadline_timer \<Rightarrow> posted_task list" where
  "aborted_waits t = map (\<lambda>h. TimerWake h operation_aborted) (waiting t)"

definition expires_from_now :: "int \<Rightarrow> int \<Rightarrow> deadline_timer \<Rightarrow> deadline_timer" where
  "expires_from_now now d t = \<lparr> expires_at = Some (now + d), waiting = [] \<rparr>"

definition async_wait :: "wait_handler \<Rightarrow> deadline_timer \<Rightarrow> deadline_timer" where
  "async_wait h t = t\<lparr> waiting := waiting t @ [h] \<rparr>"

definition cancel :: "deadline_timer \<Rightarrow> deadline_timer" where
  "cancel t = t\<lparr> waiting := [] \<rparr>"

section \<open>The node\<close>

record Functors =
  message_received :: bool
  network_status :: bool
  close_node_replaced :: bool
  request_public_key :: bool
  new_bootstrap_endpoint :: bool

record NetworkUtils =
  bootstrap_connection_id :: NodeId
  this_node_relay_connection_id :: NodeId

record Impl =
  kNodeId :: NodeId
  kAnonymousNode :: bool
  running :: bool
  functors :: Functors
  random_node_helper :: "NodeId list"
  routing_table :: RoutingTable
  non_routing_table :: "NodeInfo list"
  network :: NetworkUtils
  timer :: Timer
  re_bootstrap_timer :: deadline_timer
  recovery_timer :: deadline_timer
  setup_timer :: deadline_timer
  clock :: int
  posted :: "posted_task list"
  events :: "event list"
  next_hops :: "(NodeId \<times> packet) list"

definition emit :: "event \<Rightarrow> Impl \<Rightarrow> Impl" where
  "emit e s = s\<lparr> events := events s @ [e] \<rparr>"

definition post :: "posted_task \<Rightarrow> Impl \<Rightarrow> Impl" where
  "post t s = s\<lparr> posted := posted s @ [t] \<rparr>"

definition NotifyNetworkStatus :: "net_status \<Rightarrow> Impl \<Rightarrow> Impl" where
  "NotifyNetworkStatus return_code s =
     (if network_status (functors s) then emit (NetworkStatusCall return_code) s else s)"

text \<open>
  Modelled from the spec: \<open>NetworkUtils::SendToClosestNode\<close> is missing. The envelope goes
  to the routing-table peer minimising the XOR distance to the envelope's destination
  (the target, for a FindNodes request). The call is recorded among the events; the
  connection of the peer chosen, with the envelope, is recorded in \<open>next_hops\<close>. With an
  empty table there is no peer to choose.
\<close>

fun packet_destination :: "packet \<Rightarrow> NodeId" where
  "packet_destination (AppMessage m) = (case destination_id m of None \<Rightarrow> 0 | Some d \<Rightarrow> d)"
| "packet_destination (FindNodesMessage r) = fn_target r"

definition network_SendToClosestNode :: "packet \<Rightarrow> Impl \<Rightarrow> Impl" where
  "network_SendToClosestNode pkt s =
     (let s1 = emit (SendToClosestNode pkt) s
      in case closest_of (packet_destination pkt) (nodes (routing_table s1)) of
           None \<Rightarrow> s1
         | Some p \<Rightarrow> s1\<lparr> next_hops := next_hops s1 @ [(connection_id p, pkt)] \<rparr>)"

definition OnMessageReceived :: "wire \<Rightarrow> Impl \<Rightarrow> Impl" where
  "OnMessageReceived message s =
     (if running s then post (DoOnMessageReceivedTask message) s else s)"

definition OnConnectionLost :: "NodeId \<Rightarrow> Impl \<Rightarrow> Impl" where
  "OnConnectionLost lost_connection_id s =
     (if running s then post (DoOnConnectionLostTask lost_connection_id) s else s)"

section \<open>Send\<close>

definition respond_empty :: "ResponseFunctor option \<Rightarrow> Impl \<Rightarrow> Impl" where
  "respond_empty response_functor s =
     (case response_functor of
        None \<Rightarrow> s
      | Some f \<Rightarrow> emit (ResponseFunctorCall f []) s)"

text \<open>
  The body of \<open>Send\<close> after validation, up to \<open>set_replication\<close>: the envelope and the
  pending-response timer after the optional \<open>AddTask\<close>.
\<close>

definition Send_proto_message ::
  "Parameters \<Rightarrow> NodeId \<Rightarrow> NodeId \<Rightarrow> string \<Rightarrow> ResponseFunctor option \<Rightarrow> int \<Rightarrow> bool \<Rightarrow> bool
     \<Rightarrow> Impl \<Rightarrow> Message \<times> Timer" where
  "Send_proto_message P dest claim payload response_functor timeout is_direct is_cacheable s =
     (let m0 = Message_empty
            \<lparr> destination_id := Some dest, routing_message := Some False,
              data := [payload], msg_type := Some kNodeLevel,
              cacheable := Some is_cacheable, direct := Some is_direct,
              client_node := Some (client_mode (routing_table s)),
              request := Some True, msg_hops_to_live := Some (hops_to_live P) \<rparr>;
          m1 = (if \<not> IsZero claim then m0\<lparr> group_claim := Some claim \<rparr> else m0);
          (repl, m2, t) =
            (if \<not> is_direct then
               (case response_functor of
                  None \<Rightarrow> (node_group_size P, m1, timer s)
                | Some f \<Rightarrow>
                    (let (i, t') = AddTask timeout f (node_group_size P) (clock s) (timer s)
                     in (node_group_size P, m1\<lparr> msg_id := Some i \<rparr>, t')))
             else
               (case response_functor of
                  None \<Rightarrow> (1, m1, timer s)
                | Some f \<Rightarrow>
                    (let (i, t') = AddTask timeout f 1 (clock s) (timer s)
                     in (1, m1\<lparr> msg_id := Some i \<rparr>, t'))))
      in (m2\<lparr> replication := Some repl \<rparr>, t))"

definition Send ::
  "Parameters \<Rightarrow> NodeId \<Rightarrow> NodeId \<Rightarrow> string \<Rightarrow> ResponseFunctor option \<Rightarrow> int \<Rightarrow> bool \<Rightarrow> bool
     \<Rightarrow> Impl \<Rightarrow> Impl" where
  "Send P dest claim payload response_functor timeout is_direct is_cacheable s =
     (if IsZero dest then respond_empty response_functor s
      else if payload = [] \<or> length payload > max_data_size P
        then respond_empty response_functor s
      else
        (let (m, t) = Send_proto_message P dest claim payload response_functor timeout
                        is_direct is_cacheable s;
             s1 = s\<lparr> timer := t \<rparr>
         in if kAnonymousNode s1 \<or> Size (routing_table s1) = 0 then
              (let m' = m\<lparr> relay_id := Some (kNodeId s1),
                            relay_connection_id :=
                              Some (this_node_relay_connection_id (network s1)) \<rparr>
               in emit (SendToDirect (AppMessage m') (bootstrap_connection_id (network s1))
                          (RelayMessageSent m')) s1)
            else
              (let m' = m\<lparr> source_id := Some (kNodeId s1) \<rparr>
               in if kNodeId s1 \<noteq> dest then network_SendToClosestNode (AppMessage m') s1
                  else if client_mode (routing_table s1)
                    then network_SendToClosestNode (AppMessage m') s1
                  else OnMessageReceived (SerializeAsString m') s1)))"

text \<open>
  The completion functor of the relay send posts a task; the task cancels the pending
  task and reports the end of the session when the transport reported a failure.
\<close>

definition message_sent :: "Message \<Rightarrow> return_code \<Rightarrow> Impl \<Rightarrow> Impl" where
  "message_sent m result s = post (RelaySendResultTask m result) s"

text \<open>
  What the transport's call of a completion functor does: the functor of the FindNodes
  request only logs, the functor of the relay send posts the task below.
\<close>

fun sent_functor_call :: "sent_functor \<Rightarrow> return_code \<Rightarrow> Impl \<Rightarrow> Impl" where
  "sent_functor_call FindNodesSent r s = s"
| "sent_functor_call (RelayMessageSent m) r s = message_sent m r s"

definition relay_send_result :: "Message \<Rightarrow> return_code \<Rightarrow> Impl \<Rightarrow> Impl" where
  "relay_send_result m result s =
     (if result \<noteq> kSuccess then
        (let s1 = s\<lparr> timer := CancelTask (id_of m) (timer s) \<rparr>
         in if kAnonymousNode s1
            then NotifyNetworkStatus (ReturnCode kAnonymousSessionEnded) s1
            else NotifyNetworkStatus (ReturnCode kPartialJoinSessionEnded) s1)
      else s)"

section \<open>Timers of the node\<close>

datatype timer_name = ReBootstrapTimer | RecoveryTimer | SetupTimer

fun get_timer :: "timer_name \<Rightarrow> Impl \<Rightarrow> deadline_timer" where
  "get_timer ReBootstrapTimer s = re_bootstrap_timer s"
| "get_timer RecoveryTimer s = recovery_timer s"
| "get_timer SetupTimer s = setup_timer s"

fun set_timer :: "timer_name \<Rightarrow> deadline_timer \<Rightarrow> Impl \<Rightarrow> Impl" where
  "set_timer ReBootstrapTimer t s = s\<lparr> re_bootstrap_timer := t \<rparr>"
| "set_timer RecoveryTimer t s = s\<lparr> recovery_timer := t \<rparr>"
| "set_timer SetupTimer t s = s\<lparr> setup_timer := t \<rparr>"

definition timer_expires_from_now :: "timer_name \<Rightarrow> int \<Rightarrow> Impl \<Rightarrow> Impl" where
  "timer_expires_from_now w d s =
     (set_timer w (expires_from_now (clock s) d (get_timer w s)) s)
       \<lparr> posted := posted s @ aborted_waits (get_timer w s) \<rparr>"

definition timer_async_wait :: "timer_name \<Rightarrow> wait_handler \<Rightarrow> Impl \<Rightarrow> Impl" where
  "timer_async_wait w h s = set_timer w (async_wait h (get_timer w s)) s"

definition timer_cancel :: "timer_name \<Rightarrow> Impl \<Rightarrow> Impl" where
  "timer_cancel w s =
     (set_timer w (cancel (get_timer w s)) s)
       \<lparr> posted := posted s @ aborted_waits (get_timer w s) \<rparr>"

text \<open>The expiry of a timer, an event of the environment: the pending waits complete.\<close>

definition timer_expired :: "timer_name \<Rightarrow> Impl \<Rightarrow> Impl" where
  "timer_expired w s =
     (set_timer w ((get_timer w s)\<lparr> waiting := [] \<rparr>) s)
       \<lparr> posted := posted s @ map (\<lambda>h. TimerWake h no_error) (waiting (get_timer w s)) \<rparr>"

definition assert_that :: "bool \<Rightarrow> string \<Rightarrow> Impl \<Rightarrow> Impl" where
  "assert_that c msg s = (if c then s else emit (AssertFailed msg) s)"

section \<open>Recovery and re-bootstrap\<close>

definition ReBootstrap :: "Parameters \<Rightarrow> Impl \<Rightarrow> Impl" where
  "ReBootstrap P s =
     (if \<not> running s then s
      else timer_async_wait ReBootstrapTimer ReBootstrapWake
             (timer_expires_from_now ReBootstrapTimer (re_bootstrap_time_lag P) s))"

definition ReSendFindNodeRequest :: "Parameters \<Rightarrow> error_code \<Rightarrow> bool \<Rightarrow> Impl \<Rightarrow> Impl" where
  "ReSendFindNodeRequest P ec ignore_size s =
     (if ec = operation_aborted then s
      else if Size (routing_table s) = 0 then ReBootstrap P s
      else if ignore_size \<or> Size (routing_table s) < routing_table_size_threshold P then
        (let num = (if ignore_size \<and> Size (routing_table s) > routing_table_size_threshold P
                    then int (closest_nodes_size P)
                    else int (max_routing_table_size P));
             find_node_rpc = FindNodes (kNodeId s) (kNodeId s) num False 0;
             s1 = network_SendToClosestNode (FindNodesMessage find_node_rpc) s
         in if \<not> running s1 then s1
            else timer_async_wait RecoveryTimer (RecoveryRearm ec)
                   (timer_expires_from_now RecoveryTimer (find_node_interval P) s1))
      else s)"

section \<open>Join and the setup loop\<close>

text \<open>The tail of \<open>FindClosestNode\<close>: send the request to the bootstrap peer, re-arm.\<close>

definition FindClosestNode_send :: "Parameters \<Rightarrow> 32 word \<Rightarrow> Impl \<Rightarrow> Impl" where
  "FindClosestNode_send P attempts s =
     (let find_node_rpc = FindNodes (kNodeId s) (kNodeId s) 1 True
                            (this_node_relay_connection_id (network s));
          s1 = emit (SendToDirect (FindNodesMessage find_node_rpc)
                       (bootstrap_connection_id (network s)) FindNodesSent) s
      in if \<not> running s1 then s1
         else timer_async_wait SetupTimer (SetupRetry (attempts + 1))
                (timer_expires_from_now SetupTimer (find_close_node_interval P) s1))"

definition FindClosestNode :: "Parameters \<Rightarrow> error_code \<Rightarrow> 32 word \<Rightarrow> Impl \<Rightarrow> Impl" where
  "FindClosestNode P ec attempts s =
     (if \<not> running s then s
      else if ec = operation_aborted then s
      else
        (let s0 = assert_that (\<not> kAnonymousNode s) ''Not allowed for anonymous nodes'' s
         in if attempts = 0 then
              FindClosestNode_send P attempts
                (assert_that (\<not> IsZero (this_node_relay_connection_id (network s0)))
                   ''Relay connection id should be set after bootstrapping succeeds''
                   (assert_that (\<not> IsZero (bootstrap_connection_id (network s0)))
                      ''Only after bootstrapping succeeds'' s0))
            else if Size (routing_table s0) > 0 then
              (if \<not> running s0 then s0
               else timer_async_wait RecoveryTimer RecoveryStart
                      (timer_expires_from_now RecoveryTimer (find_node_interval P) s0))
            else if sint attempts \<ge> maximum_find_close_node_failures P then
              FindClosestNode_send P attempts (ReBootstrap P s0)
            else FindClosestNode_send P attempts s0))"

text \<open>
  Modelled from the spec: \<open>network_.Bootstrap\<close> is missing. The transport answers a
  bootstrap attempt with a return code and, on success, the connection id of the
  bootstrap peer and this node's relay handle; the answer is an input of the model.
\<close>

record bootstrap_outcome =
  result :: return_code
  peer_connection_id :: NodeId
  relay_handle :: NodeId

definition network_Bootstrap ::
  "Endpoint list \<Rightarrow> bootstrap_outcome \<Rightarrow> Impl \<Rightarrow> return_code \<times> Impl" where
  "network_Bootstrap endpoints boot s =
     (let s1 = emit (NetBootstrap endpoints) s
      in if result boot = kSuccess
         then (kSuccess,
               s1\<lparr> network := \<lparr> bootstrap_connection_id = peer_connection_id boot,
                                this_node_relay_connection_id = relay_handle boot \<rparr> \<rparr>)
         else (result boot, s1))"

definition clear_bootstrap_connection_info :: "Impl \<Rightarrow> Impl" where
  "clear_bootstrap_connection_info s =
     s\<lparr> network := \<lparr> bootstrap_connection_id = 0, this_node_relay_connection_id = 0 \<rparr> \<rparr>"

definition DoBootstrap ::
  "Endpoint list \<Rightarrow> bootstrap_outcome \<Rightarrow> Impl \<Rightarrow> return_code \<times> Impl" where
  "DoBootstrap endpoints boot s =
     (let s0 = assert_that (Size (routing_table s) = 0) ''routing_table_.Size() == 0'' s;
          s1 = timer_cancel SetupTimer (timer_cancel RecoveryTimer s0)
      in if \<not> running s1 then (kNetworkShuttingDown, s1)
         else
           (let s2 = (if \<not> IsZero (bootstrap_connection_id (network s1))
                      then clear_bootstrap_connection_info
                             (emit (NetRemove (bootstrap_connection_id (network s1))) s1)
                      else s1)
            in network_Bootstrap endpoints boot s2))"

definition DoJoin :: "Parameters \<Rightarrow> Endpoint list \<Rightarrow> bootstrap_outcome \<Rightarrow> Impl \<Rightarrow> Impl" where
  "DoJoin P endpoints boot s =
     (let (return_value, s1) = DoBootstrap endpoints boot s
      in if return_value \<noteq> kSuccess then NotifyNetworkStatus (ReturnCode return_value) s1
         else
           (let s2 = assert_that (\<not> IsZero (bootstrap_connection_id (network s1)))
                       ''Bootstrap connection id must be populated by now.'' s1
            in if kAnonymousNode s2 then NotifyNetworkStatus (ReturnCode return_value) s2
               else NotifyNetworkStatus (ReturnCode return_value)
                      (FindClosestNode P no_error 0 s2)))"

definition DoReBootstrap ::
  "Parameters \<Rightarrow> error_code \<Rightarrow> bootstrap_outcome \<Rightarrow> Impl \<Rightarrow> Impl" where
  "DoReBootstrap P ec boot s =
     (if ec = operation_aborted then s
      else if \<not> running s then s
      else DoJoin P [] boot s)"

section \<open>Join from given endpoints\<close>

lemma closest_of_mem: "closest_of t xs = Some n \<Longrightarrow> n \<in> set xs"
  by (induction xs arbitrary: n) (auto split: option.splits if_splits)

lemma closest_of_nonempty: "xs \<noteq> [] \<Longrightarrow> closest_of t xs \<noteq> None"
  by (cases xs) (auto split: option.splits)

lemma find_has_key_mem:
  assumes "n \<in> set xs"
  shows "\<exists>m. find (has_key (node_id n)) xs = Some m \<and> m \<in> set xs"
proof (cases "find (has_key (node_id n)) xs")
  case None
  with assms show ?thesis by (auto simp: find_None_iff has_key_def)
next
  case (Some m)
  then show ?thesis by (auto simp: find_Some_iff)
qed

lemma DropNode_closest_Size:
  assumes "0 < Size rt"
  shows "Suc (Size (snd (DropNode rt (node_id (GetClosestNode rt t))))) = Size rt"
proof -
  from assms have "nodes rt \<noteq> []" by (simp add: Size_def)
  then obtain n where n: "closest_of t (nodes rt) = Some n"
    using closest_of_nonempty by fastforce
  then have "n \<in> set (nodes rt)" by (rule closest_of_mem)
  then obtain m where m: "find (has_key (node_id n)) (nodes rt) = Some m" "m \<in> set (nodes rt)"
    using find_has_key_mem by blast
  have "length (remove1 m (nodes rt)) = length (nodes rt) - 1"
    using m(2) by (simp add: length_remove1)
  moreover have "length (nodes rt) > 0" using assms by (simp add: Size_def)
  ultimately show ?thesis
    using n m(1) by (simp add: DropNode_def GetClosestNode_def Size_def)
qed

text \<open>
  The removal loop of \<open>BootstrapFromTheseEndpoints\<close>: the counter is a \<open>uint16_t\<close> and the
  bound \<open>routing_table_.Size()\<close> is read again at every iteration.
\<close>

function remove_nodes_loop :: "16 word \<Rightarrow> Impl \<Rightarrow> Impl" where
  "remove_nodes_loop i s =
     (if unat i < Size (routing_table s) then
        (let remove_node = GetClosestNode (routing_table s) (kNodeId s);
             s1 = emit (NetRemove (connection_id remove_node)) s;
             s2 = s1\<lparr> routing_table :=
                        snd (DropNode (routing_table s1) (node_id remove_node)) \<rparr>
         in remove_nodes_loop (i + 1) s2)
      else s)"
  by pat_completeness auto
termination
proof (relation "measure (\<lambda>(i, s). Size (routing_table s))")
  show "wf (measure (\<lambda>(i, s). Size (routing_table s)))" by simp
next
  fix i :: "16 word" and s :: Impl and x xa xb
  assume a: "unat i < Size (routing_table s)"
    and x: "x = GetClosestNode (routing_table s) (kNodeId s)"
    and xa: "xa = emit (NetRemove (connection_id x)) s"
    and xb: "xb = xa\<lparr>routing_table := snd (DropNode (routing_table xa) (node_id x))\<rparr>"
  from a have "0 < Size (routing_table s)" by simp
  from DropNode_closest_Size [OF this, of "kNodeId s"]
  show "((i + 1, xb), (i, s)) \<in> measure (\<lambda>(i, s). Size (routing_table s))"
    using x xa xb by (simp add: emit_def)
qed

declare remove_nodes_loop.simps [simp del]

text \<open>
  The size handed to the network-status functor is cast to \<open>int\<close>; size 0 is the same
  integer as \<open>kSuccess\<close>.
\<close>

definition size_status :: "nat \<Rightarrow> net_status" where
  "size_status n = (if n = 0 then ReturnCode kSuccess else TableSize n)"

definition BootstrapFromTheseEndpoints ::
  "Parameters \<Rightarrow> Endpoint list \<Rightarrow> bootstrap_outcome \<Rightarrow> Impl \<Rightarrow> Impl" where
  "BootstrapFromTheseEndpoints P endpoints boot s =
     (let s1 = (if Size (routing_table s) > 0 then
                  (let s' = remove_nodes_loop 0 s
                   in NotifyNetworkStatus (size_status (Size (routing_table s'))) s')
                else s)
      in DoJoin P endpoints boot s1)"

definition ConnectFunctors :: "Functors \<Rightarrow> Impl \<Rightarrow> Impl" where
  "ConnectFunctors fs s = s\<lparr> functors := fs \<rparr>"

definition Join ::
  "Parameters \<Rightarrow> Functors \<Rightarrow> Endpoint list \<Rightarrow> bootstrap_outcome \<Rightarrow> Impl \<Rightarrow> Impl" where
  "Join P fs peer_endpoints boot s =
     (let s1 = ConnectFunctors fs s
      in if peer_endpoints \<noteq> [] then BootstrapFromTheseEndpoints P peer_endpoints boot s1
         else DoJoin P peer_endpoints boot s1)"

section \<open>Lost connections\<close>

definition schedule_recovery :: "Parameters \<Rightarrow> bool \<Rightarrow> Impl \<Rightarrow> Impl" where
  "schedule_recovery P resend s =
     (if resend then
        (if \<not> running s then s
         else timer_async_wait RecoveryTimer RecoveryAfterLoss
                (timer_expires_from_now RecoveryTimer (recovery_time_lag P) s))
      else s)"

definition DoOnConnectionLost ::
  "Parameters \<Rightarrow> node_info_lookup \<Rightarrow> NodeId \<Rightarrow> Impl \<Rightarrow> Impl" where
  "DoOnConnectionLost P GetNodeInfo lost_connection_id s =
     (if \<not> running s then s
      else
        (let resend =
               (case GetNodeInfo (routing_table s) lost_connection_id of
                  None \<Rightarrow> False
                | Some n \<Rightarrow> IsThisNodeInRange (kNodeId s) (routing_table s) (node_id n)
                              (closest_nodes_size P));
             (dropped_node, rt) = DropNode (routing_table s) lost_connection_id;
             s1 = s\<lparr> routing_table := rt \<rparr>
         in if \<not> IsZero (node_id dropped_node) then
              schedule_recovery P resend
                (s1\<lparr> random_node_helper :=
                        removeAll (node_id dropped_node) (random_node_helper s1) \<rparr>)
            else
              (let (dropped_client, nrt) = DropConnection (non_routing_table s1) lost_connection_id;
                   s2 = s1\<lparr> non_routing_table := nrt \<rparr>
               in if \<not> IsZero (node_id dropped_client) then s2
                  else if \<not> IsZero (bootstrap_connection_id (network s2)) \<and>
                          lost_connection_id = bootstrap_connection_id (network s2) then
                    (let s3 = clear_bootstrap_connection_info s2
                     in if kAnonymousNode s3
                        then NotifyNetworkStatus (ReturnCode kAnonymousSessionEnded) s3
                        else schedule_recovery P (Size (routing_table s3) = 0) s3)
                  else s2)))"

definition RemoveNode :: "Parameters \<Rightarrow> NodeInfo \<Rightarrow> bool \<Rightarrow> Impl \<Rightarrow> Impl" where
  "RemoveNode P node internal_rudp_only s =
     (if IsZero (connection_id node) \<or> IsZero (node_id node) then s
      else
        (let s1 = emit (NetRemove (connection_id node)) s
         in if internal_rudp_only then s1
            else schedule_recovery P
                   (IsThisNodeInRange (kNodeId s1) (routing_table s1) (node_id node)
                      (closest_nodes_size P)) s1))"

section \<open>Timer handlers and the task queue\<close>

text \<open>
  Each handler is a lambda that tests a status against \<open>operation_aborted\<close> and then makes
  one call. \<open>handler_call\<close> is the lambda's test: the call it makes, if any, when woken
  with the given status. The handler armed by \<open>ReSendFindNodeRequest\<close> tests the status
  it captured; the others test the status they are woken with.
\<close>

datatype call =
    ReSendFindNodeRequestCall error_code bool
  | FindClosestNodeCall error_code "32 word"
  | DoReBootstrapCall error_code

fun handler_call :: "wait_handler \<Rightarrow> error_code \<Rightarrow> call option" where
  "handler_call RecoveryStart ec =
     (if ec \<noteq> operation_aborted then Some (ReSendFindNodeRequestCall ec False) else None)"
| "handler_call RecoveryAfterLoss ec =
     (if ec \<noteq> operation_aborted then Some (ReSendFindNodeRequestCall ec True) else None)"
| "handler_call (RecoveryRearm captured) error_code_local =
     (if captured \<noteq> operation_aborted
      then Some (ReSendFindNodeRequestCall error_code_local False) else None)"
| "handler_call (SetupRetry attempts) error_code_local =
     (if error_code_local \<noteq> operation_aborted
      then Some (FindClosestNodeCall error_code_local attempts) else None)"
| "handler_call ReBootstrapWake error_code_local =
     (if error_code_local \<noteq> operation_aborted
      then Some (DoReBootstrapCall error_code_local) else None)"

fun invoke :: "Parameters \<Rightarrow> bootstrap_outcome \<Rightarrow> call \<Rightarrow> Impl \<Rightarrow> Impl" where
  "invoke P boot (ReSendFindNodeRequestCall ec ignore_size) s =
     ReSendFindNodeRequest P ec ignore_size s"
| "invoke P boot (FindClosestNodeCall ec attempts) s = FindClosestNode P ec attempts s"
| "invoke P boot (DoReBootstrapCall ec) s = DoReBootstrap P ec boot s"

definition wake :: "Parameters \<Rightarrow> bootstrap_outcome \<Rightarrow> wait_handler \<Rightarrow> error_code \<Rightarrow> Impl \<Rightarrow> Impl" where
  "wake P boot h ec s =
     (case handler_call h ec of None \<Rightarrow> s | Some c \<Rightarrow> invoke P boot c s)"

text \<open>
  \<open>DoOnMessageReceived\<close> parses the message and hands it to the message handler, which
  is not among the sources: the hand-over is recorded as an event. An unset flag reads
  as false and an unset source id as the zero id.
\<close>

definition DoOnMessageReceived :: "wire \<Rightarrow> Impl \<Rightarrow> Impl" where
  "DoOnMessageReceived message s =
     (case ParseFromString message of
        None \<Rightarrow> s
      | Some pb_message \<Rightarrow>
          (let src = (case source_id pb_message of None \<Rightarrow> 0 | Some i \<Rightarrow> i);
               s1 = (if ((kAnonymousNode s \<or> client_node pb_message \<noteq> Some True) \<and>
                           source_id pb_message \<noteq> None) \<or>
                        (direct pb_message \<noteq> Some True \<and> request pb_message \<noteq> Some True)
                     then (if \<not> IsZero src
                           then s\<lparr> random_node_helper := random_node_helper s @ [src] \<rparr>
                           else s)
                     else s)
           in emit (HandleMessage pb_message) s1))"

fun run_task ::
  "Parameters \<Rightarrow> bootstrap_outcome \<Rightarrow> node_info_lookup \<Rightarrow> posted_task \<Rightarrow> Impl \<Rightarrow> Impl" where
  "run_task P boot G (DoOnMessageReceivedTask message) s = DoOnMessageReceived message s"
| "run_task P boot G (DoOnConnectionLostTask lost) s = DoOnConnectionLost P G lost s"
| "run_task P boot G (RelaySendResultTask m r) s = relay_send_result m r s"
| "run_task P boot G (TimerWake h ec) s = wake P boot h ec s"

text \<open>The worker takes the oldest posted task and runs it.\<close>

definition run_next ::
  "Parameters \<Rightarrow> bootstrap_outcome \<Rightarrow> node_info_lookup \<Rightarrow> Impl \<Rightarrow> Impl" where
  "run_next P boot G s =
     (case posted s of
        [] \<Rightarrow> s
      | t # ts \<Rightarrow> run_task P boot G t (s\<lparr> posted := ts \<rparr>))"

section \<open>Example nodes\<close>

definition peer :: "NodeId \<Rightarrow> NodeInfo" where
  "peer a = \<lparr> node_id = a, connection_id = a, public_key = [], rank = 0 \<rparr>"

definition all_functors :: Functors where
  "all_functors =
     \<lparr> message_received = True, network_status = True, close_node_replaced = True,
       request_public_key = True, new_bootstrap_endpoint = True \<rparr>"

text \<open>
  A running node with the given id and routing-table entries, bootstrapped through
  the peer with connection id 9 and relay handle 5, with idle timers.
\<close>

definition node_with :: "NodeId \<Rightarrow> bool \<Rightarrow> bool \<Rightarrow> NodeInfo list \<Rightarrow> Impl" where
  "node_with self anonymous client ns =
     \<lparr> kNodeId = self, kAnonymousNode = anonymous, running = True,
       functors = all_functors, random_node_helper = [],
       routing_table = \<lparr> client_mode = client, nodes = ns \<rparr>,
       non_routing_table = [],
       network = \<lparr> bootstrap_connection_id = 9, this_node_relay_connection_id = 5 \<rparr>,
       timer = \<lparr> tasks = [], next_id = 1 \<rparr>,
       re_bootstrap_timer = timer_idle, recovery_timer = timer_idle,
       setup_timer = timer_idle, clock = 0, posted = [], events = [], next_hops = [] \<rparr>"

definition relayed_hello :: Message where
  "relayed_hello =
     \<lparr> destination_id = Some 3, source_id = None, routing_message = Some False,
       data = [''hello''], msg_type = Some kNodeLevel, cacheable = Some False,
       direct = Some True, client_node = Some False, request = Some True,
       msg_hops_to_live = Some 50, group_claim = None, msg_id = Some 1,
       replication = Some 1, relay_id = Some 1, relay_connection_id = Some 5 \<rparr>"

text \<open>
  A lookup for the example runs: the entry with the given connection id, if there is
  one. It is one possible answer of \<open>GetNodeInfo\<close>, not a model of it.
\<close>

definition lookup_by_connection :: node_info_lookup where
  "lookup_by_connection rt x = find (\<lambda>n. connection_id n = x) (nodes rt)"

definition bootstrap_ok :: bootstrap_outcome where
  "bootstrap_ok = \<lparr> result = kSuccess, peer_connection_id = 9, relay_handle = 5 \<rparr>"

text \<open>A timer with a single pending wait.\<close>

definition armed :: "int \<Rightarrow> wait_handler \<Rightarrow> deadline_timer" where
  "armed at h = \<lparr> expires_at = Some at, waiting = [h] \<rparr>"

text \<open>A node whose routing table holds 48 entries, the default size threshold.\<close>

definition full_table_node :: Impl where
  "full_table_node = node_with 1 False False (map (\<lambda>i. peer (of_nat i)) [2..<50])"

text \<open>The FindNodes request of the setup loop of node 1, relayed through handle 5.\<close>

definition find_self_via_relay :: FindNodesRequest where
  "find_self_via_relay =
     \<lparr> fn_source = 1, fn_target = 1, num_nodes_requested = 1,
       fn_relay_id = Some 1, fn_relay_connection_id = Some 5 \<rparr>"

text \<open>
  A running, bootstrapped node with an empty routing table, and the same node after
  the wake of the setup timer that carries attempt count 3.
\<close>

definition unjoined_node :: Impl where
  "unjoined_node = node_with 1 False False []"

definition after_third_failure :: Impl where
  "after_third_failure = FindClosestNode default_parameters no_error 3 unjoined_node"

text \<open>
  A node with two routing-table entries, and the same node one second after the
  connection to peer 2 was reported lost.
\<close>

definition two_peer_node :: Impl where
  "two_peer_node = node_with 1 False False [peer 2, peer 3]"

definition after_peer_2_lost :: Impl where
  "after_peer_2_lost =
     (DoOnConnectionLost default_parameters lookup_by_connection 2 two_peer_node)
       \<lparr> clock := 1000 \<rparr>"

text \<open>
  Node 1 with the eight peers 16 to 23, all of them within its eight closest entries;
  peer 17 is the closest.
\<close>

definition eight_peer_node :: Impl where
  "eight_peer_node =
     node_with 1 False False
       [peer 16, peer 17, peer 18, peer 19, peer 20, peer 21, peer 22, peer 23]"

text \<open>
  Node 1 with the single entry 2 left in its routing table, after the removal of
  entry 3 and the report of the table size 1.
\<close>

definition half_dropped_node :: Impl where
  "half_dropped_node =
     (node_with 1 False False [peer 2])
       \<lparr> events := [NetRemove 3, NetworkStatusCall (TableSize 1)] \<rparr>"

section \<open>Envelopes handed over by an operation\<close>

text \<open>
  The envelopes that an operation taking the node from \<open>s\<close> to \<open>s'\<close> has handed to the
  transport or posted to the inbound path of the node itself.
\<close>

definition envelopes_of_event :: "event \<Rightarrow> Message list" where
  "envelopes_of_event e =
     (case e of
        SendToDirect (AppMessage m) c f \<Rightarrow> [m]
      | SendToClosestNode (AppMessage m) \<Rightarrow> [m]
      | _ \<Rightarrow> [])"

definition envelopes_of_task :: "posted_task \<Rightarrow> Message list" where
  "envelopes_of_task t =
     (case t of
        DoOnMessageReceivedTask w \<Rightarrow> (case ParseFromString w of None \<Rightarrow> [] | Some m \<Rightarrow> [m])
      | _ \<Rightarrow> [])"

definition new_envelopes :: "Impl \<Rightarrow> Impl \<Rightarrow> Message list" where
  "new_envelopes s s' =
     concat (map envelopes_of_event (drop (length (events s)) (events s'))) @
     concat (map envelopes_of_task (drop (length (posted s)) (posted s')))"

section \<open>Properties of Send\<close>

lemma node_with_simps:
  "running (node_with a b c ns) = True"
  "events (node_with a b c ns) = []"
  "posted (node_with a b c ns) = []"
  "timer (node_with a b c ns) = \<lparr> tasks = [], next_id = 1 \<rparr>"
  "clock (node_with a b c ns) = 0"
  "kNodeId (node_with a b c ns) = a"
  "kAnonymousNode (node_with a b c ns) = b"
  "routing_table (node_with a b c ns) = \<lparr> client_mode = c, nodes = ns \<rparr>"
  "non_routing_table (node_with a b c ns) = []"
  "random_node_helper (node_with a b c ns) = []"
  "network (node_with a b c ns) =
     \<lparr> bootstrap_connection_id = 9, this_node_relay_connection_id = 5 \<rparr>"
  "functors (node_with a b c ns) = all_functors"
  "re_bootstrap_timer (node_with a b c ns) = timer_idle"
  "recovery_timer (node_with a b c ns) = timer_idle"
  "setup_timer (node_with a b c ns) = timer_idle"
  "next_hops (node_with a b c ns) = []"
  by (simp_all add: node_with_def)

lemma network_SendToClosestNode_effect:
  "events (network_SendToClosestNode pkt s) = events s @ [SendToClosestNode pkt]"
  "posted (network_SendToClosestNode pkt s) = posted s"
  "timer (network_SendToClosestNode pkt s) = timer s"
  "running (network_SendToClosestNode pkt s) = running s"
  "clock (network_SendToClosestNode pkt s) = clock s"
  "kNodeId (network_SendToClosestNode pkt s) = kNodeId s"
  "routing_table (network_SendToClosestNode pkt s) = routing_table s"
  "recovery_timer (network_SendToClosestNode pkt s) = recovery_timer s"
  "re_bootstrap_timer (network_SendToClosestNode pkt s) = re_bootstrap_timer s"
  "setup_timer (network_SendToClosestNode pkt s) = setup_timer s"
  "next_hops (network_SendToClosestNode pkt s) =
     next_hops s @
       (case closest_of (packet_destination pkt) (nodes (routing_table s)) of
          None \<Rightarrow> []
        | Some p \<Rightarrow> [(connection_id p, pkt)])"
  by (simp_all add: network_SendToClosestNode_def Let_def emit_def split: option.splits)

lemma hd_in_singleton: "length xs = 1 \<Longrightarrow> hd xs \<in> set xs"
  by (cases xs) auto

lemma Send_proto_message_fields:
  "Send_proto_message P dest claim payload rf timeout is_direct is_cacheable s = (m, t) \<Longrightarrow>
     replication m = Some (if is_direct then 1 else node_group_size P) \<and>
     msg_id m = map_option (\<lambda>f. next_id (timer s)) rf \<and>
     destination_id m = Some dest \<and> source_id m = None \<and> relay_id m = None \<and>
     relay_connection_id m = None \<and>
     t = (case rf of
            None \<Rightarrow> timer s
          | Some f \<Rightarrow>
              \<lparr> tasks = tasks (timer s) @
                   [(next_id (timer s),
                     \<lparr> callback = f,
                       remaining_responses = (if is_direct then 1 else node_group_size P),
                       deadline = clock s + timeout \<rparr>)],
                next_id = next_id (timer s) + 1 \<rparr>)"
  by (auto simp: Send_proto_message_def AddTask_def Let_def Message_empty_def
           split: option.splits if_splits)

lemma Send_valid_cases:
  assumes "\<not> IsZero dest" "payload \<noteq> []" "length payload \<le> max_data_size P"
    and "Send_proto_message P dest claim payload rf timeout is_direct is_cacheable s = (m, t)"
  shows "Send P dest claim payload rf timeout is_direct is_cacheable s =
     (let s1 = s\<lparr> timer := t \<rparr>
      in if kAnonymousNode s \<or> Size (routing_table s) = 0 then
           (let m' = m\<lparr> relay_id := Some (kNodeId s),
                         relay_connection_id :=
                           Some (this_node_relay_connection_id (network s)) \<rparr>
            in emit (SendToDirect (AppMessage m') (bootstrap_connection_id (network s))
                       (RelayMessageSent m')) s1)
         else
           (let m' = m\<lparr> source_id := Some (kNodeId s) \<rparr>
            in if kNodeId s \<noteq> dest \<or> client_mode (routing_table s)
               then network_SendToClosestNode (AppMessage m') s1
               else OnMessageReceived (SerializeAsString m') s1))"
  using assms by (simp add: Send_def Let_def)

text \<open>
  C1. A \<open>Send\<close> whose destination id is zero, whose payload is empty or whose payload is
  larger than \<open>max_data_size\<close> changes nothing but the event log, to which it adds one
  call of the response functor with the empty list when a functor was supplied and
  nothing otherwise: no envelope reaches the transport and the pending-response table
  is as before.
\<close>

theorem Send_rejects_invalid_input:
  assumes "IsZero dest \<or> payload = [] \<or> length payload > max_data_size P"
  shows "Send P dest claim payload response_functor timeout is_direct is_cacheable s =
           s\<lparr> events := events s @
                 (case response_functor of
                    None \<Rightarrow> []
                  | Some f \<Rightarrow> [ResponseFunctorCall f []]) \<rparr>"
  using assms
  by (auto simp: Send_def respond_empty_def emit_def split: option.splits)

theorem Send_rejects_invalid_input_witness:
  "(IsZero 0 \<or> ''hello'' = [] \<or> length ''hello'' > max_data_size default_parameters) \<and>
   Send default_parameters 0 0 ''hello'' (Some 7) 1000 True False
       (node_with 1 False False [peer 2]) =
     (node_with 1 False False [peer 2])\<lparr> events := [ResponseFunctorCall 7 []] \<rparr>"
  using Send_rejects_invalid_input [of 0 "''hello''" default_parameters 0 "Some 7" 1000 True False
          "node_with 1 False False [peer 2]"]
  by (simp add: IsZero_def node_with_def)

text \<open>
  C2. A \<open>Send\<close> that passes validation hands over only envelopes whose replication field
  is 1 when \<open>direct\<close> is true and the group size \<open>node_group_size\<close> otherwise, and whose id
  is the id of the new pending task when a response functor was supplied and is unset
  otherwise; a running node hands over exactly one envelope. With a functor the pending
  table gains exactly one task, expecting that many responses, with deadline now +
  timeout; without a functor the pending table is unchanged.
\<close>

theorem Send_replication_and_pending_task:
  assumes "\<not> IsZero dest" "payload \<noteq> []" "length payload \<le> max_data_size P"
  shows "(\<forall>m \<in> set (new_envelopes s
                     (Send P dest claim payload rf timeout is_direct is_cacheable s)).
            replication m = Some (if is_direct then 1 else node_group_size P) \<and>
            msg_id m = map_option (\<lambda>f. next_id (timer s)) rf) \<and>
         (running s \<longrightarrow>
            length (new_envelopes s
                      (Send P dest claim payload rf timeout is_direct is_cacheable s)) = 1) \<and>
         timer (Send P dest claim payload rf timeout is_direct is_cacheable s) =
           (case rf of
              None \<Rightarrow> timer s
            | Some f \<Rightarrow>
                \<lparr> tasks = tasks (timer s) @
                     [(next_id (timer s),
                       \<lparr> callback = f,
                         remaining_responses = (if is_direct then 1 else node_group_size P),
                         deadline = clock s + timeout \<rparr>)],
                  next_id = next_id (timer s) + 1 \<rparr>)"
proof -
  obtain m t where mt:
    "Send_proto_message P dest claim payload rf timeout is_direct is_cacheable s = (m, t)"
    by (cases "Send_proto_message P dest claim payload rf timeout is_direct is_cacheable s")
  note f = Send_proto_message_fields [OF mt]
  note c = Send_valid_cases [OF assms mt]
  show ?thesis
    using f unfolding c
    by (auto simp: Let_def emit_def OnMessageReceived_def post_def new_envelopes_def
          envelopes_of_event_def envelopes_of_task_def SerializeAsString_def
          network_SendToClosestNode_effect)
qed

theorem Send_replication_and_pending_task_witness:
  "(\<not> IsZero 3 \<and> ''hello'' \<noteq> [] \<and> length ''hello'' \<le> max_data_size default_parameters) \<and>
   running (node_with 1 False False [peer 2]) \<and>
   length (new_envelopes (node_with 1 False False [peer 2])
             (Send default_parameters 3 0 ''hello'' (Some 7) 1000 False False
                (node_with 1 False False [peer 2]))) = 1 \<and>
   replication (hd (new_envelopes (node_with 1 False False [peer 2])
             (Send default_parameters 3 0 ''hello'' (Some 7) 1000 False False
                (node_with 1 False False [peer 2])))) = Some 8 \<and>
   msg_id (hd (new_envelopes (node_with 1 False False [peer 2])
             (Send default_parameters 3 0 ''hello'' (Some 7) 1000 False False
                (node_with 1 False False [peer 2])))) = Some 1 \<and>
   timer (Send default_parameters 3 0 ''hello'' (Some 7) 1000 False False
            (node_with 1 False False [peer 2])) =
     \<lparr> tasks = [(1, \<lparr> callback = 7, remaining_responses = 8, deadline = 1000 \<rparr>)],
       next_id = 2 \<rparr>"
proof -
  have pre: "\<not> IsZero 3" "''hello'' \<noteq> []" "length ''hello'' \<le> max_data_size default_parameters"
    by (simp_all add: IsZero_def default_parameters_def)
  note t = Send_replication_and_pending_task [OF pre, of "node_with 1 False False [peer 2]"
             0 "Some 7" 1000 False False]
  from t have len: "length (new_envelopes (node_with 1 False False [peer 2])
             (Send default_parameters 3 0 ''hello'' (Some 7) 1000 False False
                (node_with 1 False False [peer 2]))) = 1"
    by (simp add: node_with_simps)
  from t hd_in_singleton [OF len] pre len show ?thesis
    by (simp add: node_with_simps default_parameters_def)
qed

text \<open>
  C3. A \<open>Send\<close> that passes validation on a node that is anonymous or has an empty routing
  table hands exactly one envelope to the transport, sent directly over the bootstrap
  connection, with \<open>relay_id\<close> the node's own id and \<open>relay_connection_id\<close> its relay
  handle. When the transport calls the completion functor with a result other than
  success, the functor posts a task; running that task leaves no pending task with the
  envelope's id and calls the network-status functor (when one is registered) with
  \<open>kAnonymousSessionEnded\<close> on an anonymous node and \<open>kPartialJoinSessionEnded\<close> otherwise.
\<close>

theorem Send_relay_when_anonymous_or_unjoined:
  assumes "\<not> IsZero dest" "payload \<noteq> []" "length payload \<le> max_data_size P"
    and "kAnonymousNode s \<or> Size (routing_table s) = 0"
  shows "\<exists>m. events (Send P dest claim payload rf timeout is_direct is_cacheable s) =
               events s @ [SendToDirect (AppMessage m) (bootstrap_connection_id (network s))
                             (RelayMessageSent m)] \<and>
             posted (Send P dest claim payload rf timeout is_direct is_cacheable s) = posted s \<and>
             relay_id m = Some (kNodeId s) \<and>
             relay_connection_id m = Some (this_node_relay_connection_id (network s)) \<and>
             msg_id m = map_option (\<lambda>f. next_id (timer s)) rf \<and>
             (\<forall>r s'. r \<noteq> kSuccess \<longrightarrow>
                posted (sent_functor_call (RelayMessageSent m) r s') =
                  posted s' @ [RelaySendResultTask m r] \<and>
                id_of m \<notin> fst ` set (tasks (timer (run_task P boot G (RelaySendResultTask m r) s'))) \<and>
                events (run_task P boot G (RelaySendResultTask m r) s') =
                  events s' @
                    (if network_status (functors s')
                     then [NetworkStatusCall
                             (ReturnCode (if kAnonymousNode s' then kAnonymousSessionEnded
                                          else kPartialJoinSessionEnded))]
                     else []))"
proof -
  obtain m t where mt:
    "Send_proto_message P dest claim payload rf timeout is_direct is_cacheable s = (m, t)"
    by (cases "Send_proto_message P dest claim payload rf timeout is_direct is_cacheable s")
  note f = Send_proto_message_fields [OF mt]
  note c = Send_valid_cases [OF assms(1-3) mt]
  let ?m = "m\<lparr> relay_id := Some (kNodeId s),
                relay_connection_id := Some (this_node_relay_connection_id (network s)) \<rparr>"
  have "events (Send P dest claim payload rf timeout is_direct is_cacheable s) =
               events s @ [SendToDirect (AppMessage ?m) (bootstrap_connection_id (network s))
                             (RelayMessageSent ?m)]"
    and "posted (Send P dest claim payload rf timeout is_direct is_cacheable s) = posted s"
    using assms(4) unfolding c by (auto simp: Let_def emit_def)
  moreover have "relay_id ?m = Some (kNodeId s)"
    "relay_connection_id ?m = Some (this_node_relay_connection_id (network s))"
    "msg_id ?m = map_option (\<lambda>f. next_id (timer s)) rf"
    using f by simp_all
  moreover have "\<forall>r s'. r \<noteq> kSuccess \<longrightarrow>
                posted (sent_functor_call (RelayMessageSent ?m) r s') =
                  posted s' @ [RelaySendResultTask ?m r] \<and>
                id_of ?m \<notin> fst ` set (tasks (timer (run_task P boot G (RelaySendResultTask ?m r) s'))) \<and>
                events (run_task P boot G (RelaySendResultTask ?m r) s') =
                  events s' @
                    (if network_status (functors s')
                     then [NetworkStatusCall
                             (ReturnCode (if kAnonymousNode s' then kAnonymousSessionEnded
                                          else kPartialJoinSessionEnded))]
                     else [])"
    by (auto simp: relay_send_result_def Let_def NotifyNetworkStatus_def emit_def CancelTask_def
          message_sent_def post_def)
  ultimately show ?thesis by blast
qed

lemma Send_relayed_hello:
  "Send default_parameters 3 0 ''hello'' (Some 7) 1000 True False (node_with 1 True False []) =
     (node_with 1 True False [])
       \<lparr> timer := \<lparr> tasks = [(1, \<lparr> callback = 7, remaining_responses = 1, deadline = 1000 \<rparr>)],
                    next_id = 2 \<rparr>,
         events := [SendToDirect (AppMessage relayed_hello) 9 (RelayMessageSent relayed_hello)] \<rparr>"
  by (simp add: Send_def Send_proto_message_def IsZero_def default_parameters_def
        node_with_simps Let_def AddTask_def Message_empty_def emit_def relayed_hello_def Size_def)

theorem Send_relay_when_anonymous_or_unjoined_witness:
  "(\<not> IsZero 3 \<and> ''hello'' \<noteq> [] \<and> length ''hello'' \<le> max_data_size default_parameters) \<and>
   kAnonymousNode (node_with 1 True False []) \<and>
   kRudpError (- 1) \<noteq> kSuccess \<and>
   events (Send default_parameters 3 0 ''hello'' (Some 7) 1000 True False
             (node_with 1 True False [])) =
     [SendToDirect (AppMessage relayed_hello) 9 (RelayMessageSent relayed_hello)] \<and>
   relay_id relayed_hello = Some 1 \<and> relay_connection_id relayed_hello = Some 5 \<and>
   tasks (timer (run_task default_parameters bootstrap_ok lookup_by_connection
                   (RelaySendResultTask relayed_hello (kRudpError (- 1)))
                   (Send default_parameters 3 0 ''hello'' (Some 7) 1000 True False
                      (node_with 1 True False [])))) = [] \<and>
   events (run_task default_parameters bootstrap_ok lookup_by_connection
             (RelaySendResultTask relayed_hello (kRudpError (- 1)))
             (Send default_parameters 3 0 ''hello'' (Some 7) 1000 True False
                (node_with 1 True False []))) =
     [SendToDirect (AppMessage relayed_hello) 9 (RelayMessageSent relayed_hello),
      NetworkStatusCall (ReturnCode kAnonymousSessionEnded)]"
proof -
  let ?s = "node_with 1 True False []"
  let ?s1 = "Send default_parameters 3 0 ''hello'' (Some 7) 1000 True False ?s"
  have pre: "\<not> IsZero 3" "''hello'' \<noteq> []" "length ''hello'' \<le> max_data_size default_parameters"
    "kAnonymousNode ?s \<or> Size (routing_table ?s) = 0"
    by (simp_all add: IsZero_def default_parameters_def node_with_simps)
  from Send_relay_when_anonymous_or_unjoined [OF pre, where claim = 0 and rf = "Some 7"
         and timeout = 1000 and is_direct = True and is_cacheable = False
         and boot = bootstrap_ok and G = lookup_by_connection]
  obtain m where m:
    "events ?s1 = events ?s @ [SendToDirect (AppMessage m) (bootstrap_connection_id (network ?s))
                             (RelayMessageSent m)]"
    "relay_id m = Some (kNodeId ?s)"
    "relay_connection_id m = Some (this_node_relay_connection_id (network ?s))"
    "\<forall>r s'. r \<noteq> kSuccess \<longrightarrow>
        posted (sent_functor_call (RelayMessageSent m) r s') = posted s' @ [RelaySendResultTask m r] \<and>
        id_of m \<notin> fst ` set (tasks (timer (run_task default_parameters bootstrap_ok
                                              lookup_by_connection (RelaySendResultTask m r) s'))) \<and>
        events (run_task default_parameters bootstrap_ok lookup_by_connection (RelaySendResultTask m r) s') =
          events s' @
            (if network_status (functors s')
             then [NetworkStatusCall
                     (ReturnCode (if kAnonymousNode s' then kAnonymousSessionEnded
                                  else kPartialJoinSessionEnded))]
             else [])"
    by blast
  have ev: "events ?s1 = [SendToDirect (AppMessage relayed_hello) 9 (RelayMessageSent relayed_hello)]"
    by (simp add: Send_relayed_hello)
  with m(1) have meq: "m = relayed_hello" by (simp add: node_with_simps)
  have ne: "kRudpError (- 1) \<noteq> kSuccess" by simp
  from m(4) ne have after:
    "events (run_task default_parameters bootstrap_ok lookup_by_connection
               (RelaySendResultTask m (kRudpError (- 1))) ?s1) =
          events ?s1 @
            (if network_status (functors ?s1)
             then [NetworkStatusCall
                     (ReturnCode (if kAnonymousNode ?s1 then kAnonymousSessionEnded
                                  else kPartialJoinSessionEnded))]
             else [])"
    by blast
  have t: "tasks (timer (run_task default_parameters bootstrap_ok lookup_by_connection
                   (RelaySendResultTask relayed_hello (kRudpError (- 1))) ?s1)) = []"
    by (simp add: Send_relayed_hello relay_send_result_def CancelTask_def id_of_def
          relayed_hello_def NotifyNetworkStatus_def emit_def node_with_simps Let_def
          all_functors_def)
  show ?thesis
    using pre(1-3) ne ev m(2,3) after t unfolding meq
    by (simp add: Send_relayed_hello node_with_simps all_functors_def)
qed

lemma closest_of_min:
  "closest_of t xs = Some c \<Longrightarrow> p \<in> set xs \<Longrightarrow> (node_id c XOR t) \<le> (node_id p XOR t)"
proof (induction xs arbitrary: c)
  case Nil
  then show ?case by simp
next
  case (Cons x xs)
  show ?case
  proof (cases "closest_of t xs")
    case None
    then have "xs = []" using closest_of_nonempty by blast
    with Cons.prems None show ?thesis by simp
  next
    case (Some y)
    note IH = Cons.IH [OF Some]
    show ?thesis
    proof (cases "(node_id y XOR t) < (node_id x XOR t)")
      case True
      with Some Cons.prems(1) have "c = y" by simp
      with Cons.prems(2) True IH show ?thesis by auto
    next
      case False
      with Some Cons.prems(1) have c: "c = x" by simp
      show ?thesis
      proof (cases "p = x")
        case True
        with c show ?thesis by simp
      next
        case False
        with Cons.prems(2) have "p \<in> set xs" by simp
        from IH [OF this] \<open>\<not> (node_id y XOR t) < (node_id x XOR t)\<close> c
        show ?thesis by simp
      qed
    qed
  qed
qed

lemma GetClosestNode_closest:
  assumes "Size rt \<noteq> 0"
  shows "GetClosestNode rt t \<in> set (nodes rt)"
    and "closest_of t (nodes rt) = Some (GetClosestNode rt t)"
    and "p \<in> set (nodes rt) \<Longrightarrow> (node_id (GetClosestNode rt t) XOR t) \<le> (node_id p XOR t)"
proof -
  from assms have "nodes rt \<noteq> []" by (simp add: Size_def)
  then obtain c where c: "closest_of t (nodes rt) = Some c"
    using closest_of_nonempty by fastforce
  then have g: "GetClosestNode rt t = c" by (simp add: GetClosestNode_def)
  from c g show "GetClosestNode rt t \<in> set (nodes rt)" using closest_of_mem by blast
  from c g show "closest_of t (nodes rt) = Some (GetClosestNode rt t)" by simp
  show "(node_id (GetClosestNode rt t) XOR t) \<le> (node_id p XOR t)" if "p \<in> set (nodes rt)"
    using closest_of_min [OF c that] g by simp
qed

lemma DoOnMessageReceived_hands_over:
  "events (DoOnMessageReceived (SerializeAsString m) s) = events s @ [HandleMessage m]"
  by (simp add: DoOnMessageReceived_def SerializeAsString_def Let_def emit_def)

text \<open>
  C4. A \<open>Send\<close> that passes validation on a node that is not anonymous and has a
  non-empty routing table builds an envelope addressed to the destination with the
  node's own id as source. When the destination is the node's own id and the node is
  not in client mode, \<open>Send\<close> re-enters the inbound entry point \<open>OnMessageReceived\<close> with the
  serialised envelope: nothing goes to the transport and, while the node is running,
  exactly one inbound task is posted; running that task parses the envelope back and
  hands it to the message handler. (When the running flag is cleared the inbound path
  posts nothing.) In every other case the envelope is handed to send-to-closest-node
  and leaves over the connection of the routing-table entry closest to the destination:
  an entry of the table from which no entry has a smaller XOR distance to the
  destination; nothing is posted locally.
\<close>

theorem Send_joined_node_next_hop:
  assumes "\<not> IsZero dest" "payload \<noteq> []" "length payload \<le> max_data_size P"
    and "\<not> kAnonymousNode s" "Size (routing_table s) \<noteq> 0"
  shows "\<exists>m. destination_id m = Some dest \<and> source_id m = Some (kNodeId s) \<and>
             (\<forall>s'. events (run_task P boot G (DoOnMessageReceivedTask (SerializeAsString m)) s') =
                     events s' @ [HandleMessage m]) \<and>
             (if dest = kNodeId s \<and> \<not> client_mode (routing_table s)
              then Send P dest claim payload rf timeout is_direct is_cacheable s =
                     OnMessageReceived (SerializeAsString m)
                       (s\<lparr> timer := snd (Send_proto_message P dest claim payload rf timeout
                                                  is_direct is_cacheable s) \<rparr>) \<and>
                   posted (Send P dest claim payload rf timeout is_direct is_cacheable s) =
                     posted s @
                       (if running s then [DoOnMessageReceivedTask (SerializeAsString m)]
                        else []) \<and>
                   events (Send P dest claim payload rf timeout is_direct is_cacheable s) =
                     events s \<and>
                   next_hops (Send P dest claim payload rf timeout is_direct is_cacheable s) =
                     next_hops s
              else events (Send P dest claim payload rf timeout is_direct is_cacheable s) =
                     events s @ [SendToClosestNode (AppMessage m)] \<and>
                   next_hops (Send P dest claim payload rf timeout is_direct is_cacheable s) =
                     next_hops s @
                       [(connection_id (GetClosestNode (routing_table s) dest), AppMessage m)] \<and>
                   GetClosestNode (routing_table s) dest \<in> set (nodes (routing_table s)) \<and>
                   (\<forall>p \<in> set (nodes (routing_table s)).
                      (node_id (GetClosestNode (routing_table s) dest) XOR dest) \<le>
                        (node_id p XOR dest)) \<and>
                   posted (Send P dest claim payload rf timeout is_direct is_cacheable s) =
                     posted s)"
proof -
  obtain m t where mt:
    "Send_proto_message P dest claim payload rf timeout is_direct is_cacheable s = (m, t)"
    by (cases "Send_proto_message P dest claim payload rf timeout is_direct is_cacheable s")
  note f = Send_proto_message_fields [OF mt]
  note c = Send_valid_cases [OF assms(1-3) mt]
  note g = GetClosestNode_closest [OF assms(5), where t = dest]
  let ?m = "m\<lparr> source_id := Some (kNodeId s) \<rparr>"
  have d: "destination_id ?m = Some dest" "source_id ?m = Some (kNodeId s)"
    using f by simp_all
  have h: "\<forall>s'. events (run_task P boot G (DoOnMessageReceivedTask (SerializeAsString ?m)) s') =
                  events s' @ [HandleMessage ?m]"
    by (simp add: DoOnMessageReceived_hands_over)
  have "(if dest = kNodeId s \<and> \<not> client_mode (routing_table s)
              then Send P dest claim payload rf timeout is_direct is_cacheable s =
                     OnMessageReceived (SerializeAsString ?m)
                       (s\<lparr> timer := snd (Send_proto_message P dest claim payload rf timeout
                                                  is_direct is_cacheable s) \<rparr>) \<and>
                   posted (Send P dest claim payload rf timeout is_direct is_cacheable s) =
                     posted s @
                       (if running s then [DoOnMessageReceivedTask (SerializeAsString ?m)]
                        else []) \<and>
                   events (Send P dest claim payload rf timeout is_direct is_cacheable s) =
                     events s \<and>
                   next_hops (Send P dest claim payload rf timeout is_direct is_cacheable s) =
                     next_hops s
              else events (Send P dest claim payload rf timeout is_direct is_cacheable s) =
                     events s @ [SendToClosestNode (AppMessage ?m)] \<and>
                   next_hops (Send P dest claim payload rf timeout is_direct is_cacheable s) =
                     next_hops s @
                       [(connection_id (GetClosestNode (routing_table s) dest), AppMessage ?m)] \<and>
                   GetClosestNode (routing_table s) dest \<in> set (nodes (routing_table s)) \<and>
                   (\<forall>p \<in> set (nodes (routing_table s)).
                      (node_id (GetClosestNode (routing_table s) dest) XOR dest) \<le>
                        (node_id p XOR dest)) \<and>
                   posted (Send P dest claim payload rf timeout is_direct is_cacheable s) =
                     posted s)"
    using assms(4,5) mt f g unfolding c
    by (auto simp: Let_def OnMessageReceived_def post_def network_SendToClosestNode_effect)
  with d h show ?thesis by blast
qed

theorem Send_joined_node_next_hop_witness:
  "(\<not> IsZero 1 \<and> \<not> IsZero 7 \<and> ''hello'' \<noteq> [] \<and>
    length ''hello'' \<le> max_data_size default_parameters) \<and>
   \<not> kAnonymousNode (node_with 1 False False [peer 2, peer 6]) \<and>
   Size (routing_table (node_with 1 False False [peer 2, peer 6])) \<noteq> 0 \<and>
   \<not> client_mode (routing_table (node_with 1 False False [peer 2, peer 6])) \<and>
   running (node_with 1 False False [peer 2, peer 6]) \<and>
   (\<exists>m. destination_id m = Some 1 \<and> source_id m = Some 1 \<and>
        posted (Send default_parameters 1 0 ''hello'' None 1000 True False
                  (node_with 1 False False [peer 2, peer 6])) =
          [DoOnMessageReceivedTask (SerializeAsString m)] \<and>
        events (Send default_parameters 1 0 ''hello'' None 1000 True False
                  (node_with 1 False False [peer 2, peer 6])) = [] \<and>
        next_hops (Send default_parameters 1 0 ''hello'' None 1000 True False
                     (node_with 1 False False [peer 2, peer 6])) = [] \<and>
        events (run_next default_parameters bootstrap_ok lookup_by_connection
                  (Send default_parameters 1 0 ''hello'' None 1000 True False
                     (node_with 1 False False [peer 2, peer 6]))) = [HandleMessage m]) \<and>
   (\<exists>m. destination_id m = Some 7 \<and> source_id m = Some 1 \<and>
        events (Send default_parameters 7 0 ''hello'' None 1000 True False
                  (node_with 1 False False [peer 2, peer 6])) =
          [SendToClosestNode (AppMessage m)] \<and>
        next_hops (Send default_parameters 7 0 ''hello'' None 1000 True False
                     (node_with 1 False False [peer 2, peer 6])) = [(6, AppMessage m)] \<and>
        posted (Send default_parameters 7 0 ''hello'' None 1000 True False
                  (node_with 1 False False [peer 2, peer 6])) = []) \<and>
   peer 2 \<in> set (nodes (routing_table (node_with 1 False False [peer 2, peer 6]))) \<and>
   GetClosestNode (routing_table (node_with 1 False False [peer 2, peer 6])) 7 = peer 6 \<and>
   (node_id (peer 6) XOR 7) \<le> (node_id (peer 2) XOR (7 :: NodeId))"
proof -
  let ?s = "node_with 1 False False [peer 2, peer 6]"
  let ?self = "Send default_parameters 1 0 ''hello'' None 1000 True False ?s"
  let ?far = "Send default_parameters 7 0 ''hello'' None 1000 True False ?s"
  have pre: "''hello'' \<noteq> []" "length ''hello'' \<le> max_data_size default_parameters"
    "\<not> kAnonymousNode ?s" "Size (routing_table ?s) \<noteq> 0"
    and nz: "\<not> IsZero 1" "\<not> IsZero 7"
    and nc: "\<not> client_mode (routing_table ?s)" and run: "running ?s"
    and mem: "peer 2 \<in> set (nodes (routing_table ?s))"
    by (simp_all add: IsZero_def default_parameters_def node_with_simps Size_def)
  have cl: "GetClosestNode (routing_table ?s) 7 = peer 6"
    by (simp add: GetClosestNode_def node_with_simps peer_def)
  from Send_joined_node_next_hop [OF nz(1) pre, where claim = 0 and rf = None
         and timeout = 1000 and is_direct = True and is_cacheable = False
         and boot = bootstrap_ok and G = lookup_by_connection]
  obtain m where m: "destination_id m = Some 1" "source_id m = Some 1"
    and del: "\<forall>s'. events (run_task default_parameters bootstrap_ok lookup_by_connection
                              (DoOnMessageReceivedTask (SerializeAsString m)) s') =
                     events s' @ [HandleMessage m]"
    and po: "posted ?self = [DoOnMessageReceivedTask (SerializeAsString m)]"
    and ev: "events ?self = []" and nh: "next_hops ?self = []"
    by (auto simp: node_with_simps)
  from del have "events (run_task default_parameters bootstrap_ok lookup_by_connection
                   (DoOnMessageReceivedTask (SerializeAsString m)) (?self\<lparr> posted := [] \<rparr>)) =
                 events (?self\<lparr> posted := [] \<rparr>) @ [HandleMessage m]"
    by blast
  with po ev have rn: "events (run_next default_parameters bootstrap_ok lookup_by_connection
                                 ?self) = [HandleMessage m]"
    by (simp add: run_next_def)
  from m po ev nh rn have a: "\<exists>m. destination_id m = Some 1 \<and> source_id m = Some 1 \<and>
        posted ?self = [DoOnMessageReceivedTask (SerializeAsString m)] \<and>
        events ?self = [] \<and> next_hops ?self = [] \<and>
        events (run_next default_parameters bootstrap_ok lookup_by_connection ?self) =
          [HandleMessage m]"
    by blast
  from Send_joined_node_next_hop [OF nz(2) pre, where claim = 0 and rf = None
         and timeout = 1000 and is_direct = True and is_cacheable = False
         and boot = bootstrap_ok and G = lookup_by_connection]
  obtain m' where m': "destination_id m' = Some 7" "source_id m' = Some 1"
    and ev': "events ?far = [SendToClosestNode (AppMessage m')]"
    and nh': "next_hops ?far =
                [(connection_id (GetClosestNode (routing_table ?s) 7), AppMessage m')]"
    and po': "posted ?far = []"
    and mn: "\<forall>p \<in> set (nodes (routing_table ?s)).
               (node_id (GetClosestNode (routing_table ?s) 7) XOR 7) \<le> (node_id p XOR 7)"
    by (auto simp: node_with_simps)
  from nh' cl have nh'': "next_hops ?far = [(6, AppMessage m')]" by (simp add: peer_def)
  from m' ev' nh'' po' have b: "\<exists>m. destination_id m = Some 7 \<and> source_id m = Some 1 \<and>
        events ?far = [SendToClosestNode (AppMessage m)] \<and>
        next_hops ?far = [(6, AppMessage m)] \<and> posted ?far = []"
    by blast
  from mn mem cl have le: "(node_id (peer 6) XOR 7) \<le> (node_id (peer 2) XOR (7 :: NodeId))"
    by auto
  from pre nz nc run mem cl a b le show ?thesis by blast
qed

section \<open>Properties of the recovery loop\<close>

lemmas timer_ops =
  timer_async_wait_def timer_expires_from_now_def expires_from_now_def async_wait_def
  aborted_waits_def armed_def

lemma ReBootstrap_effect:
  "events (ReBootstrap P s) = events s"
  "recovery_timer (ReBootstrap P s) = recovery_timer s"
  "setup_timer (ReBootstrap P s) = setup_timer s"
  "routing_table (ReBootstrap P s) = routing_table s"
  "running (ReBootstrap P s) = running s"
  "network (ReBootstrap P s) = network s"
  "kNodeId (ReBootstrap P s) = kNodeId s"
  "clock (ReBootstrap P s) = clock s"
  "re_bootstrap_timer (ReBootstrap P s) =
     (if running s then armed (clock s + re_bootstrap_time_lag P) ReBootstrapWake
      else re_bootstrap_timer s)"
  by (simp_all add: ReBootstrap_def timer_ops)

lemma default_parameter_values:
  "max_data_size default_parameters = 1048576"
  "hops_to_live default_parameters = 50"
  "node_group_size default_parameters = 8"
  "closest_nodes_size default_parameters = 8"
  "max_routing_table_size default_parameters = 64"
  "routing_table_size_threshold default_parameters = 48"
  "find_node_interval default_parameters = 60000"
  "find_close_node_interval default_parameters = 5000"
  "recovery_time_lag default_parameters = 1000"
  "re_bootstrap_time_lag default_parameters = 10000"
  "maximum_find_close_node_failures default_parameters = 3"
  by (simp_all add: default_parameters_def)

lemma full_table_node_facts:
  "Size (routing_table full_table_node) = 48"
  "events full_table_node = []"
  "posted full_table_node = []"
  "recovery_timer full_table_node = timer_idle"
  "running full_table_node"
  by (simp_all add: full_table_node_def node_with_simps Size_def)

text \<open>
  C5, as stated, fails: with the default parameters and 48 routing-table entries (the
  size threshold) a periodic wake of the recovery timer sends nothing and does not
  re-arm the timer; the node is left exactly as it was.
\<close>

theorem recovery_wake_full_table_counterexample:
  "Size (routing_table full_table_node) = 48 \<and>
   routing_table_size_threshold default_parameters = 48 \<and>
   events full_table_node = [] \<and>
   recovery_timer full_table_node = timer_idle \<and>
   wake default_parameters bootstrap_ok RecoveryStart no_error full_table_node = full_table_node"
  by (simp add: full_table_node_facts wake_def ReSendFindNodeRequest_def default_parameters_def)

text \<open>
  C5, amended. On a periodic wake of the recovery timer (status not aborted): with an
  empty routing table nothing is sent, the recovery timer is not re-armed and a running
  node arms the re-bootstrap timer with \<open>re_bootstrap_time_lag\<close>; with a table that is
  non-empty and smaller than \<open>routing_table_size_threshold\<close> one FindNodes request for
  \<open>max_routing_table_size\<close> nodes closest to the node itself is handed to
  send-to-closest-node and a running node re-arms the recovery timer with
  \<open>find_node_interval\<close>, whose handler repeats the periodic call; with a table at or above
  the threshold nothing happens, so the periodic loop ends there.
\<close>

theorem recovery_wake_periodic:
  assumes "ec \<noteq> operation_aborted"
  shows "(Size (routing_table s) = 0 \<longrightarrow>
            events (ReSendFindNodeRequest P ec False s) = events s \<and>
            recovery_timer (ReSendFindNodeRequest P ec False s) = recovery_timer s \<and>
            (running s \<longrightarrow>
               re_bootstrap_timer (ReSendFindNodeRequest P ec False s) =
                 armed (clock s + re_bootstrap_time_lag P) ReBootstrapWake)) \<and>
         (0 < Size (routing_table s) \<and>
          Size (routing_table s) < routing_table_size_threshold P \<longrightarrow>
            events (ReSendFindNodeRequest P ec False s) =
              events s @
                [SendToClosestNode (FindNodesMessage
                   (FindNodes (kNodeId s) (kNodeId s) (int (max_routing_table_size P)) False 0))] \<and>
            (running s \<longrightarrow>
               recovery_timer (ReSendFindNodeRequest P ec False s) =
                 armed (clock s + find_node_interval P) (RecoveryRearm ec) \<and>
               handler_call (RecoveryRearm ec) no_error =
                 Some (ReSendFindNodeRequestCall no_error False))) \<and>
         (0 < Size (routing_table s) \<and>
          routing_table_size_threshold P \<le> Size (routing_table s) \<longrightarrow>
            ReSendFindNodeRequest P ec False s = s)"
  using assms
  by (auto simp: ReSendFindNodeRequest_def ReBootstrap_effect Let_def timer_ops
        network_SendToClosestNode_effect)

theorem recovery_wake_periodic_witness:
  "no_error \<noteq> operation_aborted \<and>
   Size (routing_table (node_with 1 False False [])) = 0 \<and>
   running (node_with 1 False False []) \<and>
   events (ReSendFindNodeRequest default_parameters no_error False (node_with 1 False False [])) = [] \<and>
   re_bootstrap_timer
       (ReSendFindNodeRequest default_parameters no_error False (node_with 1 False False [])) =
     armed 10000 ReBootstrapWake \<and>
   0 < Size (routing_table (node_with 1 False False [peer 2])) \<and>
   Size (routing_table (node_with 1 False False [peer 2])) <
     routing_table_size_threshold default_parameters \<and>
   running (node_with 1 False False [peer 2]) \<and>
   events (ReSendFindNodeRequest default_parameters no_error False
             (node_with 1 False False [peer 2])) =
     [SendToClosestNode (FindNodesMessage (FindNodes 1 1 64 False 0))] \<and>
   recovery_timer (ReSendFindNodeRequest default_parameters no_error False
                     (node_with 1 False False [peer 2])) =
     armed 60000 (RecoveryRearm no_error) \<and>
   0 < Size (routing_table full_table_node) \<and>
   routing_table_size_threshold default_parameters \<le> Size (routing_table full_table_node) \<and>
   ReSendFindNodeRequest default_parameters no_error False full_table_node = full_table_node"
proof -
  have ne: "no_error \<noteq> operation_aborted" by simp
  note t = recovery_wake_periodic [OF ne, where P = default_parameters]
  have a: "Size (routing_table (node_with 1 False False [])) = 0"
    "running (node_with 1 False False [])"
    "0 < Size (routing_table (node_with 1 False False [peer 2]))"
    "Size (routing_table (node_with 1 False False [peer 2])) <
       routing_table_size_threshold default_parameters"
    "running (node_with 1 False False [peer 2])"
    by (simp_all add: node_with_simps Size_def default_parameter_values)
  have a': "0 < Size (routing_table full_table_node)"
    "routing_table_size_threshold default_parameters \<le> Size (routing_table full_table_node)"
    by (simp_all add: default_parameter_values full_table_node_facts)
  from t [of "node_with 1 False False []"] a(1,2)
  have b: "events (ReSendFindNodeRequest default_parameters no_error False
                    (node_with 1 False False [])) = []"
    "re_bootstrap_timer
       (ReSendFindNodeRequest default_parameters no_error False (node_with 1 False False [])) =
     armed 10000 ReBootstrapWake"
    by (simp_all add: node_with_simps default_parameter_values)
  from t [of "node_with 1 False False [peer 2]"] a(3,4,5)
  have c: "events (ReSendFindNodeRequest default_parameters no_error False
             (node_with 1 False False [peer 2])) =
     [SendToClosestNode (FindNodesMessage (FindNodes 1 1 64 False 0))]"
   "recovery_timer (ReSendFindNodeRequest default_parameters no_error False
                     (node_with 1 False False [peer 2])) =
     armed 60000 (RecoveryRearm no_error)"
    by (simp_all add: node_with_simps default_parameter_values)
  from t [of full_table_node] a'
  have d: "ReSendFindNodeRequest default_parameters no_error False full_table_node =
             full_table_node"
    by simp
  from ne a a' b c d show ?thesis by simp
qed

section \<open>Properties of the setup loop\<close>

lemma FindClosestNode_send_effect:
  "events (FindClosestNode_send P attempts s) =
     events s @
       [SendToDirect (FindNodesMessage
          (FindNodes (kNodeId s) (kNodeId s) 1 True (this_node_relay_connection_id (network s))))
          (bootstrap_connection_id (network s)) FindNodesSent]"
  "recovery_timer (FindClosestNode_send P attempts s) = recovery_timer s"
  "re_bootstrap_timer (FindClosestNode_send P attempts s) = re_bootstrap_timer s"
  "setup_timer (FindClosestNode_send P attempts s) =
     (if running s then armed (clock s + find_close_node_interval P) (SetupRetry (attempts + 1))
      else setup_timer s)"
  by (simp_all add: FindClosestNode_send_def Let_def emit_def timer_ops)

text \<open>
  C6. On a running, non-anonymous node that has bootstrapped (bootstrap connection id
  and relay handle set), a call of \<open>FindClosestNode\<close> with a status other than aborted,
  made at the start (attempt 0) or at a wake that finds the routing table empty, sends
  one FindNodes request for exactly 1 node closest to the node itself directly to the
  bootstrap connection and re-arms the setup timer with \<open>find_close_node_interval\<close>; the
  handler armed repeats the call with the next attempt count. The attempt count is a
  32-bit \<open>int\<close>, so the next count is \<open>attempts + 1\<close> in 32-bit arithmetic: after
  2147483647 comes -2147483648. A wake (attempt count not 0) that finds the routing
  table non-empty sends nothing, leaves the setup timer as it is and arms the recovery
  timer with \<open>find_node_interval\<close>.
\<close>

theorem FindClosestNode_setup_loop:
  assumes "running s" "ec \<noteq> operation_aborted" "\<not> kAnonymousNode s"
    and "\<not> IsZero (bootstrap_connection_id (network s))"
    and "\<not> IsZero (this_node_relay_connection_id (network s))"
  shows "(attempts = (0 :: 32 word) \<or> Size (routing_table s) = 0 \<longrightarrow>
            events (FindClosestNode P ec attempts s) =
              events s @
                [SendToDirect (FindNodesMessage
                   \<lparr> fn_source = kNodeId s, fn_target = kNodeId s, num_nodes_requested = 1,
                     fn_relay_id = Some (kNodeId s),
                     fn_relay_connection_id =
                       Some (this_node_relay_connection_id (network s)) \<rparr>)
                   (bootstrap_connection_id (network s)) FindNodesSent] \<and>
            setup_timer (FindClosestNode P ec attempts s) =
              armed (clock s + find_close_node_interval P) (SetupRetry (attempts + 1)) \<and>
            recovery_timer (FindClosestNode P ec attempts s) = recovery_timer s \<and>
            wake P boot (SetupRetry (attempts + 1)) no_error =
              FindClosestNode P no_error (attempts + 1)) \<and>
         (attempts \<noteq> 0 \<and> Size (routing_table s) \<noteq> 0 \<longrightarrow>
            events (FindClosestNode P ec attempts s) = events s \<and>
            setup_timer (FindClosestNode P ec attempts s) = setup_timer s \<and>
            recovery_timer (FindClosestNode P ec attempts s) =
              armed (clock s + find_node_interval P) RecoveryStart)"
  using assms
  by (auto simp: FindClosestNode_def Let_def assert_that_def FindClosestNode_send_effect
        ReBootstrap_effect FindNodes_def timer_ops wake_def fun_eq_iff)

theorem FindClosestNode_setup_loop_witness:
  "running (node_with 1 False False []) \<and> no_error \<noteq> operation_aborted \<and>
   \<not> kAnonymousNode (node_with 1 False False []) \<and>
   \<not> IsZero (bootstrap_connection_id (network (node_with 1 False False []))) \<and>
   \<not> IsZero (this_node_relay_connection_id (network (node_with 1 False False []))) \<and>
   Size (routing_table (node_with 1 False False [])) = 0 \<and>
   events (FindClosestNode default_parameters no_error 0 (node_with 1 False False [])) =
     [SendToDirect (FindNodesMessage find_self_via_relay) 9 FindNodesSent] \<and>
   setup_timer (FindClosestNode default_parameters no_error 0 (node_with 1 False False [])) =
     armed 5000 (SetupRetry 1) \<and>
   Size (routing_table (node_with 1 False False [peer 2])) \<noteq> 0 \<and>
   events (FindClosestNode default_parameters no_error 1 (node_with 1 False False [peer 2])) = [] \<and>
   setup_timer (FindClosestNode default_parameters no_error 1 (node_with 1 False False [peer 2])) =
     timer_idle \<and>
   recovery_timer (FindClosestNode default_parameters no_error 1
                     (node_with 1 False False [peer 2])) =
     armed 60000 RecoveryStart \<and>
   setup_timer (FindClosestNode default_parameters no_error 2147483647
                  (node_with 1 False False [])) =
     armed 5000 (SetupRetry 2147483648) \<and>
   sint (2147483648 :: 32 word) = - 2147483648"
proof -
  have ne: "no_error \<noteq> operation_aborted" by simp
  have pre: "running (node_with 1 False False ns)"
    "\<not> kAnonymousNode (node_with 1 False False ns)"
    "\<not> IsZero (bootstrap_connection_id (network (node_with 1 False False ns)))"
    "\<not> IsZero (this_node_relay_connection_id (network (node_with 1 False False ns)))" for ns
    by (simp_all add: node_with_simps IsZero_def)
  have sz: "Size (routing_table (node_with 1 False False [])) = 0"
    "Size (routing_table (node_with 1 False False [peer 2])) \<noteq> 0"
    by (simp_all add: node_with_simps Size_def)
  from FindClosestNode_setup_loop [OF pre(1) [of "[]"] ne pre(2-4) [of "[]"], where P = default_parameters
         and attempts = 0 and boot = bootstrap_ok] sz(1)
  have a: "events (FindClosestNode default_parameters no_error 0 (node_with 1 False False [])) =
     [SendToDirect (FindNodesMessage find_self_via_relay) 9 FindNodesSent]"
   "setup_timer (FindClosestNode default_parameters no_error 0 (node_with 1 False False [])) =
     armed 5000 (SetupRetry 1)"
    by (simp_all add: node_with_simps default_parameter_values find_self_via_relay_def)
  from FindClosestNode_setup_loop [OF pre(1) [of "[peer 2]"] ne pre(2-4) [of "[peer 2]"], where P = default_parameters
         and attempts = 1 and boot = bootstrap_ok] sz(2)
  have b: "events (FindClosestNode default_parameters no_error 1
                     (node_with 1 False False [peer 2])) = []"
   "setup_timer (FindClosestNode default_parameters no_error 1
                   (node_with 1 False False [peer 2])) = timer_idle"
   "recovery_timer (FindClosestNode default_parameters no_error 1
                     (node_with 1 False False [peer 2])) = armed 60000 RecoveryStart"
    by (simp_all add: node_with_simps default_parameter_values)
  from FindClosestNode_setup_loop [OF pre(1) [of "[]"] ne pre(2-4) [of "[]"],
         where P = default_parameters and attempts = 2147483647 and boot = bootstrap_ok] sz(1)
  have c: "setup_timer (FindClosestNode default_parameters no_error 2147483647
                  (node_with 1 False False [])) =
     armed 5000 (SetupRetry 2147483648)"
    by (simp add: node_with_simps default_parameter_values)
  have d: "sint (2147483648 :: 32 word) = - 2147483648" by simp
  from pre [of "[]"] ne sz a b c d show ?thesis by simp
qed

lemma after_third_failure_eq:
  "after_third_failure =
     unjoined_node
       \<lparr> re_bootstrap_timer := armed 10000 ReBootstrapWake,
         setup_timer := armed 5000 (SetupRetry 4),
         events := [SendToDirect (FindNodesMessage find_self_via_relay) 9 FindNodesSent] \<rparr>"
  by (simp add: after_third_failure_def unjoined_node_def FindClosestNode_def
        FindClosestNode_send_def ReBootstrap_def Let_def assert_that_def node_with_def
        default_parameter_values timer_ops emit_def Size_def FindNodes_def
        find_self_via_relay_def timer_idle_def)

text \<open>
  C7. With the default parameters and an empty routing table, the wake of the setup
  timer with attempt count 3 (the maximum) arms the re-bootstrap timer for 10 s and
  then, in the same call, still sends the FindNodes request and re-arms the setup timer
  for 5 s. The next wake of the setup timer sends again and sets the re-bootstrap timer
  anew, which completes the pending re-bootstrap wait with \<open>operation_aborted\<close>.
\<close>

theorem setup_loop_continues_after_re_bootstrap_scheduled:
  "Size (routing_table unjoined_node) = 0 \<and>
   maximum_find_close_node_failures default_parameters = 3 \<and>
   re_bootstrap_timer after_third_failure = armed 10000 ReBootstrapWake \<and>
   events after_third_failure =
     [SendToDirect (FindNodesMessage find_self_via_relay) 9 FindNodesSent] \<and>
   setup_timer after_third_failure = armed 5000 (SetupRetry 4) \<and>
   events (run_next default_parameters bootstrap_ok lookup_by_connection
             (timer_expired SetupTimer (after_third_failure\<lparr> clock := 5000 \<rparr>))) =
     [SendToDirect (FindNodesMessage find_self_via_relay) 9 FindNodesSent,
      SendToDirect (FindNodesMessage find_self_via_relay) 9 FindNodesSent] \<and>
   posted (run_next default_parameters bootstrap_ok lookup_by_connection
             (timer_expired SetupTimer (after_third_failure\<lparr> clock := 5000 \<rparr>))) =
     [TimerWake ReBootstrapWake operation_aborted] \<and>
   re_bootstrap_timer (run_next default_parameters bootstrap_ok lookup_by_connection
             (timer_expired SetupTimer (after_third_failure\<lparr> clock := 5000 \<rparr>))) =
     armed 15000 ReBootstrapWake"
  by (simp add: after_third_failure_eq unjoined_node_def node_with_def run_next_def
        timer_expired_def wake_def FindClosestNode_def
        FindClosestNode_send_def ReBootstrap_def Let_def assert_that_def
        default_parameter_values timer_ops emit_def Size_def FindNodes_def
        find_self_via_relay_def timer_idle_def)

section \<open>Properties of the handling of lost connections\<close>

lemma schedule_recovery_effect:
  "events (schedule_recovery P r s) = events s"
  "next_hops (schedule_recovery P r s) = next_hops s"
  "routing_table (schedule_recovery P r s) = routing_table s"
  "recovery_timer (schedule_recovery P r s) =
     (if r \<and> running s then armed (clock s + recovery_time_lag P) RecoveryAfterLoss
      else recovery_timer s)"
  by (simp_all add: schedule_recovery_def timer_ops)

lemma DropNode_entry:
  assumes "fst (DropNode rt x) = n" "\<not> IsZero (node_id n)"
  shows "DropNode rt x = (n, rt\<lparr> nodes := remove1 n (nodes rt) \<rparr>)"
  using assms
  by (auto simp: DropNode_def NodeInfo_default_def IsZero_def split: option.splits)

lemma two_peer_node_facts:
  "running two_peer_node" "kNodeId two_peer_node = 1" "clock two_peer_node = 0"
  "events two_peer_node = []"
  "fst (DropNode (routing_table two_peer_node) 2) = peer 2"
  "\<not> IsZero (node_id (peer 2))"
  "lookup_by_connection (routing_table two_peer_node) 2 = Some (peer 2)"
  "IsThisNodeInRange 1 (routing_table two_peer_node) (node_id (peer 2))
     (closest_nodes_size default_parameters)"
  "nodes (routing_table two_peer_node) = [peer 2, peer 3]"
  "recovery_timer two_peer_node = timer_idle"
  by (simp_all add: two_peer_node_def node_with_simps lookup_by_connection_def DropNode_def
        has_key_def peer_def IsZero_def IsThisNodeInRange_def default_parameter_values)

lemma after_peer_2_lost_eq:
  "after_peer_2_lost =
     (node_with 1 False False [peer 3])
       \<lparr> recovery_timer := armed 1000 RecoveryAfterLoss, clock := 1000 \<rparr>"
  by (simp add: after_peer_2_lost_def two_peer_node_def DoOnConnectionLost_def node_with_def
        lookup_by_connection_def DropNode_def has_key_def peer_def IsZero_def
        IsThisNodeInRange_def default_parameter_values schedule_recovery_def timer_ops Let_def
        timer_idle_def)

lemma eight_peer_node_facts:
  "running eight_peer_node" "kNodeId eight_peer_node = 1" "clock eight_peer_node = 0"
  "events eight_peer_node = []" "posted eight_peer_node = []"
  "recovery_timer eight_peer_node = timer_idle"
  "Size (routing_table eight_peer_node) = 8"
  "GetClosestNode (routing_table eight_peer_node) 1 = peer 17"
  "fst (DropNode (routing_table eight_peer_node) 17) = peer 17"
  "\<not> IsZero (node_id (peer 17))"
  "lookup_by_connection (routing_table eight_peer_node) 17 = Some (peer 17)"
  "\<not> IsThisNodeInRange 1 (routing_table eight_peer_node) (node_id (peer 17))
       (closest_nodes_size default_parameters)"
  "remove1 (peer 17) (nodes (routing_table eight_peer_node)) =
     [peer 16, peer 18, peer 19, peer 20, peer 21, peer 22, peer 23]"
  by (simp_all add: eight_peer_node_def node_with_simps lookup_by_connection_def DropNode_def
        has_key_def peer_def IsZero_def IsThisNodeInRange_def default_parameter_values
        Size_def GetClosestNode_def)

lemma after_peer_17_lost:
  "DoOnConnectionLost default_parameters lookup_by_connection 17 eight_peer_node =
     eight_peer_node
       \<lparr> routing_table :=
           \<lparr> client_mode = False,
             nodes = [peer 16, peer 18, peer 19, peer 20, peer 21, peer 22, peer 23] \<rparr> \<rparr>"
  by (simp add: eight_peer_node_def DoOnConnectionLost_def node_with_def
        lookup_by_connection_def DropNode_def has_key_def peer_def IsZero_def
        IsThisNodeInRange_def default_parameter_values schedule_recovery_def Let_def)

text \<open>
  C8, as stated, fails in two ways. Node 1 with the peers 2 and 3 and the default
  parameters loses the connection to peer 2: the peer is dropped and the recovery timer
  armed for one second, but the request sent when the timer fires asks for 64 nodes
  (\<open>max_routing_table_size\<close>), not for 8 (\<open>closest_nodes_size\<close>). Node 1 with the eight peers
  16 to 23 loses the connection to peer 17, the entry closest to it: the peer is dropped,
  but the range test of the code fails (eight entries are closer to 17 than node 1 is),
  so no timer is armed, nothing is posted and nothing is sent.
\<close>

theorem close_peer_loss_counterexample:
  "lookup_by_connection (routing_table two_peer_node) 2 = Some (peer 2) \<and>
   IsThisNodeInRange (kNodeId two_peer_node) (routing_table two_peer_node) (node_id (peer 2))
     (closest_nodes_size default_parameters) \<and>
   closest_nodes_size default_parameters = 8 \<and>
   nodes (routing_table after_peer_2_lost) = [peer 3] \<and>
   recovery_timer after_peer_2_lost = armed 1000 RecoveryAfterLoss \<and>
   events (run_next default_parameters bootstrap_ok lookup_by_connection
             (timer_expired RecoveryTimer after_peer_2_lost)) =
     [SendToClosestNode (FindNodesMessage (FindNodes 1 1 64 False 0))] \<and>
   Size (routing_table eight_peer_node) = 8 \<and>
   GetClosestNode (routing_table eight_peer_node) (kNodeId eight_peer_node) = peer 17 \<and>
   lookup_by_connection (routing_table eight_peer_node) 17 = Some (peer 17) \<and>
   nodes (routing_table
            (DoOnConnectionLost default_parameters lookup_by_connection 17 eight_peer_node)) =
     [peer 16, peer 18, peer 19, peer 20, peer 21, peer 22, peer 23] \<and>
   recovery_timer
       (DoOnConnectionLost default_parameters lookup_by_connection 17 eight_peer_node) =
     timer_idle \<and>
   posted (DoOnConnectionLost default_parameters lookup_by_connection 17 eight_peer_node) = [] \<and>
   events (DoOnConnectionLost default_parameters lookup_by_connection 17 eight_peer_node) = []"
proof -
  have "events (run_next default_parameters bootstrap_ok lookup_by_connection
             (timer_expired RecoveryTimer after_peer_2_lost)) =
     [SendToClosestNode (FindNodesMessage (FindNodes 1 1 64 False 0))]"
    by (simp add: default_parameter_values after_peer_2_lost_eq
        node_with_def run_next_def timer_expired_def wake_def ReSendFindNodeRequest_def
        Size_def Let_def network_SendToClosestNode_effect timer_ops)
  moreover have "nodes (routing_table after_peer_2_lost) = [peer 3]"
    "recovery_timer after_peer_2_lost = armed 1000 RecoveryAfterLoss"
    by (simp_all add: after_peer_2_lost_eq node_with_simps)
  ultimately show ?thesis
    using two_peer_node_facts eight_peer_node_facts
    by (simp add: default_parameter_values after_peer_17_lost)
qed

text \<open>
  C8, amended. When a running node is told of the loss of a connection that belongs to a
  routing-table entry with non-zero id, the entry is dropped and nothing is sent at
  once. The recovery timer is armed with \<open>recovery_time_lag\<close> exactly when \<open>GetNodeInfo\<close>
  finds an entry for the lost connection and the range test holds for it: fewer than
  \<open>closest_nodes_size\<close> entries of the table lie strictly closer to that entry than the
  node itself does; otherwise the timer is left as it was. A wake of the timer so armed
  with a status other than aborted sends one FindNodes request through
  send-to-closest-node when the table is non-empty, asking for \<open>closest_nodes_size\<close>
  nodes when the table holds more than \<open>routing_table_size_threshold\<close> entries and for
  \<open>max_routing_table_size\<close> nodes otherwise; with an empty table it sends nothing and a
  running node arms the re-bootstrap timer.
\<close>

theorem close_peer_loss_recovery:
  assumes "running s" "fst (DropNode (routing_table s) lost) = n" "\<not> IsZero (node_id n)"
  shows "nodes (routing_table (DoOnConnectionLost P G lost s)) =
           remove1 n (nodes (routing_table s)) \<and>
         events (DoOnConnectionLost P G lost s) = events s \<and>
         next_hops (DoOnConnectionLost P G lost s) = next_hops s \<and>
         recovery_timer (DoOnConnectionLost P G lost s) =
           (case G (routing_table s) lost of
              None \<Rightarrow> recovery_timer s
            | Some e \<Rightarrow>
                if IsThisNodeInRange (kNodeId s) (routing_table s) (node_id e)
                     (closest_nodes_size P)
                then armed (clock s + recovery_time_lag P) RecoveryAfterLoss
                else recovery_timer s) \<and>
         (\<forall>ec s'. ec \<noteq> operation_aborted \<longrightarrow>
            events (wake P boot RecoveryAfterLoss ec s') =
              events s' @
                (if Size (routing_table s') = 0 then []
                 else [SendToClosestNode (FindNodesMessage
                         (FindNodes (kNodeId s') (kNodeId s')
                            (if routing_table_size_threshold P < Size (routing_table s')
                             then int (closest_nodes_size P)
                             else int (max_routing_table_size P))
                            False 0))]) \<and>
            (Size (routing_table s') = 0 \<and> running s' \<longrightarrow>
               re_bootstrap_timer (wake P boot RecoveryAfterLoss ec s') =
                 armed (clock s' + re_bootstrap_time_lag P) ReBootstrapWake))"
proof -
  note d = DropNode_entry [OF assms(2,3)]
  have a: "nodes (routing_table (DoOnConnectionLost P G lost s)) =
             remove1 n (nodes (routing_table s))"
    "events (DoOnConnectionLost P G lost s) = events s"
    "next_hops (DoOnConnectionLost P G lost s) = next_hops s"
    "recovery_timer (DoOnConnectionLost P G lost s) =
           (case G (routing_table s) lost of
              None \<Rightarrow> recovery_timer s
            | Some e \<Rightarrow>
                if IsThisNodeInRange (kNodeId s) (routing_table s) (node_id e)
                     (closest_nodes_size P)
                then armed (clock s + recovery_time_lag P) RecoveryAfterLoss
                else recovery_timer s)"
    using assms(1,3) d
    by (simp_all add: DoOnConnectionLost_def Let_def schedule_recovery_effect
          split: option.splits)
  have b: "events (wake P boot RecoveryAfterLoss ec s') =
              events s' @
                (if Size (routing_table s') = 0 then []
                 else [SendToClosestNode (FindNodesMessage
                         (FindNodes (kNodeId s') (kNodeId s')
                            (if routing_table_size_threshold P < Size (routing_table s')
                             then int (closest_nodes_size P)
                             else int (max_routing_table_size P))
                            False 0))])"
    if "ec \<noteq> operation_aborted" for ec s'
    using that
    by (simp add: wake_def ReSendFindNodeRequest_def ReBootstrap_effect Let_def timer_ops
          network_SendToClosestNode_effect)
  have c: "re_bootstrap_timer (wake P boot RecoveryAfterLoss ec s') =
                 armed (clock s' + re_bootstrap_time_lag P) ReBootstrapWake"
    if "ec \<noteq> operation_aborted" "Size (routing_table s') = 0" "running s'" for ec s'
    using that by (simp add: wake_def ReSendFindNodeRequest_def ReBootstrap_effect)
  from a b c show ?thesis by blast
qed

theorem close_peer_loss_recovery_witness:
  "running two_peer_node \<and>
   fst (DropNode (routing_table two_peer_node) 2) = peer 2 \<and>
   \<not> IsZero (node_id (peer 2)) \<and>
   lookup_by_connection (routing_table two_peer_node) 2 = Some (peer 2) \<and>
   IsThisNodeInRange (kNodeId two_peer_node) (routing_table two_peer_node) (node_id (peer 2))
     (closest_nodes_size default_parameters) \<and>
   no_error \<noteq> operation_aborted \<and>
   nodes (routing_table
            (DoOnConnectionLost default_parameters lookup_by_connection 2 two_peer_node)) =
     [peer 3] \<and>
   events (DoOnConnectionLost default_parameters lookup_by_connection 2 two_peer_node) = [] \<and>
   recovery_timer (DoOnConnectionLost default_parameters lookup_by_connection 2 two_peer_node) =
     armed 1000 RecoveryAfterLoss \<and>
   running eight_peer_node \<and>
   fst (DropNode (routing_table eight_peer_node) 17) = peer 17 \<and>
   \<not> IsZero (node_id (peer 17)) \<and>
   lookup_by_connection (routing_table eight_peer_node) 17 = Some (peer 17) \<and>
   \<not> IsThisNodeInRange (kNodeId eight_peer_node) (routing_table eight_peer_node)
       (node_id (peer 17)) (closest_nodes_size default_parameters) \<and>
   nodes (routing_table
            (DoOnConnectionLost default_parameters lookup_by_connection 17 eight_peer_node)) =
     [peer 16, peer 18, peer 19, peer 20, peer 21, peer 22, peer 23] \<and>
   recovery_timer
       (DoOnConnectionLost default_parameters lookup_by_connection 17 eight_peer_node) =
     timer_idle \<and>
   Size (routing_table after_peer_2_lost) \<noteq> 0 \<and>
   events (wake default_parameters bootstrap_ok RecoveryAfterLoss no_error after_peer_2_lost) =
     [SendToClosestNode (FindNodesMessage (FindNodes 1 1 64 False 0))] \<and>
   Size (routing_table unjoined_node) = 0 \<and> running unjoined_node \<and>
   events (wake default_parameters bootstrap_ok RecoveryAfterLoss no_error unjoined_node) = [] \<and>
   re_bootstrap_timer (wake default_parameters bootstrap_ok RecoveryAfterLoss no_error
                         unjoined_node) =
     armed 10000 ReBootstrapWake"
proof -
  have ne: "no_error \<noteq> operation_aborted" by simp
  note t = close_peer_loss_recovery [OF two_peer_node_facts(1,5,6),
             where boot = bootstrap_ok and G = lookup_by_connection and P = default_parameters]
  note u = close_peer_loss_recovery [OF eight_peer_node_facts(1,9,10),
             where boot = bootstrap_ok and G = lookup_by_connection and P = default_parameters]
  have s1: "Size (routing_table after_peer_2_lost) \<noteq> 0" "kNodeId after_peer_2_lost = 1"
    "events after_peer_2_lost = []"
    "\<not> routing_table_size_threshold default_parameters < Size (routing_table after_peer_2_lost)"
    by (simp_all add: after_peer_2_lost_eq node_with_simps Size_def default_parameter_values)
  have s2: "Size (routing_table unjoined_node) = 0" "running unjoined_node"
    "events unjoined_node = []" "clock unjoined_node = 0"
    by (simp_all add: unjoined_node_def node_with_simps Size_def)
  from t two_peer_node_facts have a:
    "nodes (routing_table
              (DoOnConnectionLost default_parameters lookup_by_connection 2 two_peer_node)) =
       [peer 3]"
    "events (DoOnConnectionLost default_parameters lookup_by_connection 2 two_peer_node) = []"
    "recovery_timer (DoOnConnectionLost default_parameters lookup_by_connection 2 two_peer_node) =
       armed 1000 RecoveryAfterLoss"
    by (simp_all add: default_parameter_values peer_def)
  from u eight_peer_node_facts have a':
    "nodes (routing_table
            (DoOnConnectionLost default_parameters lookup_by_connection 17 eight_peer_node)) =
     [peer 16, peer 18, peer 19, peer 20, peer 21, peer 22, peer 23]"
    "recovery_timer
       (DoOnConnectionLost default_parameters lookup_by_connection 17 eight_peer_node) =
     timer_idle"
    by simp_all
  from t ne s1 have b:
    "events (wake default_parameters bootstrap_ok RecoveryAfterLoss no_error after_peer_2_lost) =
       [SendToClosestNode (FindNodesMessage (FindNodes 1 1 64 False 0))]"
    by (simp add: default_parameter_values)
  from t ne s2 have c:
    "events (wake default_parameters bootstrap_ok RecoveryAfterLoss no_error unjoined_node) = []"
    "re_bootstrap_timer (wake default_parameters bootstrap_ok RecoveryAfterLoss no_error
                         unjoined_node) = armed 10000 ReBootstrapWake"
    by (simp_all add: default_parameter_values)
  from ne two_peer_node_facts eight_peer_node_facts a a' b c s1(1) s2(1,2) show ?thesis
    by simp
qed

section \<open>Properties of the timer handlers\<close>

text \<open>A wake with \<open>operation_aborted\<close> leaves the node as it is, whatever the handler.\<close>

lemma wake_operation_aborted: "wake P boot h operation_aborted s = s"
  by (cases h) (simp_all add: wake_def ReSendFindNodeRequest_def)

text \<open>
  C9. A periodic call of \<open>ReSendFindNodeRequest\<close> on a running node with one routing-table
  entry arms the recovery timer with the handler that captured the status of that call.
  Woken with \<open>operation_aborted\<close>, this handler still calls \<open>ReSendFindNodeRequest\<close>, passing
  the aborted status on; every other handler makes no call when woken with
  \<open>operation_aborted\<close>.
\<close>

theorem recovery_rearm_handler_tests_captured_status:
  "recovery_timer (ReSendFindNodeRequest default_parameters no_error False
                     (node_with 1 False False [peer 2])) =
     armed 60000 (RecoveryRearm no_error) \<and>
   handler_call (RecoveryRearm no_error) operation_aborted =
     Some (ReSendFindNodeRequestCall operation_aborted False) \<and>
   handler_call RecoveryStart operation_aborted = None \<and>
   handler_call RecoveryAfterLoss operation_aborted = None \<and>
   handler_call (SetupRetry 1) operation_aborted = None \<and>
   handler_call ReBootstrapWake operation_aborted = None"
  by (simp add: ReSendFindNodeRequest_def node_with_simps Size_def default_parameter_values
        Let_def network_SendToClosestNode_effect timer_ops timer_idle_def)

section \<open>Properties of the join from given endpoints\<close>

text \<open>
  The removal loop stops when its counter meets the shrinking size: of a table with
  \<open>n\<close> entries it leaves \<open>n div 2\<close>.
\<close>

lemma remove_nodes_loop_Size:
  "unat i \<le> Size (routing_table s) + 1 \<Longrightarrow> Size (routing_table s) < 65535 \<Longrightarrow>
     Size (routing_table (remove_nodes_loop i s)) = (Size (routing_table s) + unat i) div 2"
proof (induction i s rule: remove_nodes_loop.induct)
  case (1 i s)
  show ?case
  proof (cases "unat i < Size (routing_table s)")
    case True
    let ?n = "GetClosestNode (routing_table s) (kNodeId s)"
    let ?s2 = "(emit (NetRemove (connection_id ?n)) s)
                 \<lparr> routing_table := snd (DropNode (routing_table s) (node_id ?n)) \<rparr>"
    from True have pos: "0 < Size (routing_table s)" by simp
    from DropNode_closest_Size [OF pos, of "kNodeId s"]
    have sz: "Suc (Size (routing_table ?s2)) = Size (routing_table s)"
      by (simp add: emit_def)
    have "unat i + unat (1 :: 16 word) < 2 ^ LENGTH(16)"
      using True "1.prems"(2) by simp
    then have u: "unat (i + 1) = unat i + 1"
      by (simp add: unat_add_lem [THEN iffD1])
    have "Size (routing_table (remove_nodes_loop (i + 1) ?s2)) =
            (Size (routing_table ?s2) + unat (i + 1)) div 2"
      using "1.IH" [OF True refl refl refl] True "1.prems" sz u
      by (simp add: emit_def)
    moreover have "remove_nodes_loop i s = remove_nodes_loop (i + 1) ?s2"
      using True by (subst remove_nodes_loop.simps) (simp add: Let_def emit_def)
    ultimately show ?thesis using sz u by simp
  next
    case False
    then have "remove_nodes_loop i s = s"
      by (subst remove_nodes_loop.simps) simp
    with False "1.prems" show ?thesis by simp
  qed
qed

lemma remove_nodes_loop_halves:
  "Size (routing_table s) < 65535 \<Longrightarrow>
     Size (routing_table (remove_nodes_loop 0 s)) = Size (routing_table s) div 2"
  using remove_nodes_loop_Size [of 0 s] by simp

lemma closest_to_1_of_2_3:
  "GetClosestNode \<lparr> client_mode = False, nodes = [peer 2, peer 3] \<rparr> 1 = peer 3"
  by (simp add: GetClosestNode_def peer_def)

lemma remove_nodes_loop_two_peers:
  "remove_nodes_loop 0 two_peer_node =
     two_peer_node
       \<lparr> routing_table := \<lparr> client_mode = False, nodes = [peer 2] \<rparr>,
         events := [NetRemove 3] \<rparr>"
proof -
  let ?s1 = "two_peer_node
       \<lparr> routing_table := \<lparr> client_mode = False, nodes = [peer 2] \<rparr>,
         events := [NetRemove 3] \<rparr>"
  have a: "remove_nodes_loop 0 two_peer_node = remove_nodes_loop 1 ?s1"
    by (subst remove_nodes_loop.simps,
        simp add: two_peer_node_def node_with_def Size_def closest_to_1_of_2_3 Let_def emit_def,
        simp add: DropNode_def has_key_def peer_def)
  have b: "remove_nodes_loop 1 ?s1 = ?s1"
    by (subst remove_nodes_loop.simps) (simp add: Size_def)
  from a b show ?thesis by simp
qed

lemma two_peer_node_after_loop:
  "Size (routing_table (remove_nodes_loop 0 two_peer_node)) = 1"
  "nodes (routing_table (remove_nodes_loop 0 two_peer_node)) = [peer 2]"
  by (simp_all add: remove_nodes_loop_two_peers Size_def)

lemma BootstrapFromTheseEndpoints_two_peers:
  "BootstrapFromTheseEndpoints default_parameters [7] bootstrap_ok two_peer_node =
     DoJoin default_parameters [7] bootstrap_ok half_dropped_node"
proof -
  have "0 < Size (routing_table two_peer_node)"
    by (simp add: Size_def two_peer_node_facts)
  then have "BootstrapFromTheseEndpoints default_parameters [7] bootstrap_ok two_peer_node =
     DoJoin default_parameters [7] bootstrap_ok
       (NotifyNetworkStatus (size_status (Size (routing_table (remove_nodes_loop 0 two_peer_node))))
          (remove_nodes_loop 0 two_peer_node))"
    by (simp add: BootstrapFromTheseEndpoints_def Let_def)
  moreover have "NotifyNetworkStatus (size_status (Size (routing_table (remove_nodes_loop 0 two_peer_node))))
          (remove_nodes_loop 0 two_peer_node) = half_dropped_node"
    unfolding remove_nodes_loop_two_peers
    by (simp add: size_status_def NotifyNetworkStatus_def emit_def Size_def two_peer_node_def
          node_with_def all_functors_def half_dropped_node_def)
  ultimately show ?thesis by simp
qed

lemma DoJoin_half_dropped_node:
  "events (DoJoin default_parameters [7] bootstrap_ok half_dropped_node) =
     [NetRemove 3, NetworkStatusCall (TableSize 1),
      AssertFailed ''routing_table_.Size() == 0'',
      NetRemove 9, NetBootstrap [7],
      SendToDirect (FindNodesMessage find_self_via_relay) 9 FindNodesSent,
      NetworkStatusCall (ReturnCode kSuccess)]"
  "nodes (routing_table (DoJoin default_parameters [7] bootstrap_ok half_dropped_node)) =
     [peer 2]"
  by (simp_all add: half_dropped_node_def node_with_def all_functors_def Size_def
        NotifyNetworkStatus_def emit_def DoJoin_def DoBootstrap_def
        assert_that_def timer_cancel_def cancel_def aborted_waits_def timer_idle_def
        IsZero_def clear_bootstrap_connection_info_def network_Bootstrap_def bootstrap_ok_def
        FindClosestNode_def FindClosestNode_send_def FindNodes_def find_self_via_relay_def
        timer_async_wait_def timer_expires_from_now_def expires_from_now_def async_wait_def
        default_parameter_values Let_def)

text \<open>
  C10. \<open>Join\<close> with the endpoint list \<open>[7]\<close> on node 1 holding the entries 2 and 3 removes
  only entry 3 (and its connection) before it bootstraps: the loop leaves entry 2, the
  size reported is 1, the assertion of \<open>DoBootstrap\<close> that the table is empty is violated
  and entry 2 is still in the routing table when \<open>Join\<close> returns.
\<close>

theorem Join_keeps_half_of_the_routing_table:
  "Size (routing_table two_peer_node) = 2 \<and>
   nodes (routing_table (remove_nodes_loop 0 two_peer_node)) = [peer 2] \<and>
   events (Join default_parameters all_functors [7] bootstrap_ok two_peer_node) =
     [NetRemove 3, NetworkStatusCall (TableSize 1),
      AssertFailed ''routing_table_.Size() == 0'',
      NetRemove 9, NetBootstrap [7],
      SendToDirect (FindNodesMessage find_self_via_relay) 9 FindNodesSent,
      NetworkStatusCall (ReturnCode kSuccess)] \<and>
   nodes (routing_table (Join default_parameters all_functors [7] bootstrap_ok two_peer_node)) =
     [peer 2]"
proof -
  have "ConnectFunctors all_functors two_peer_node = two_peer_node"
    by (simp add: ConnectFunctors_def two_peer_node_def node_with_def)
  then have "Join default_parameters all_functors [7] bootstrap_ok two_peer_node =
          DoJoin default_parameters [7] bootstrap_ok half_dropped_node"
    by (simp add: Join_def BootstrapFromTheseEndpoints_two_peers)
  moreover have "Size (routing_table two_peer_node) = 2"
    by (simp add: Size_def two_peer_node_facts)
  ultimately show ?thesis
    by (simp add: DoJoin_half_dropped_node two_peer_node_after_loop)
qed

end
